theory Spec2Isabelle
  imports Main "HOL-Library.AList"
begin

section \<open>Strings as the source uses them\<close>

text \<open>
  Python strings are modelled as \<open>string\<close> (a list of 8-bit characters). The source uses
  few string operations in the places verified here: the substring test
  \<^verbatim>\<open>a in b\<close>, \<^verbatim>\<open>lower()\<close>, \<^verbatim>\<open>strip()\<close> and \<^verbatim>\<open>split()\<close>, and
  \<^verbatim>\<open>replace()\<close> for the job title. A character is a code point below 256 (Latin-1):
  \<open>lower\<close> maps the capitals A to Z and the accented capitals 192 to 222 (but not the
  multiplication sign 215), white space is what \<^verbatim>\<open>str.isspace\<close> accepts below 256
  (tab to carriage return, the four separators 28 to 31, the space, the next-line
  character 133 and the no-break space 160), and the length of a text is its number
  of characters.
\<close>

fun starts_with :: "string \<Rightarrow> string \<Rightarrow> bool" where
  "starts_with [] hay = True"
| "starts_with (n # ns) [] = False"
| "starts_with (n # ns) (h # hs) = (n = h \<and> starts_with ns hs)"

text \<open>\<^verbatim>\<open>needle in hay\<close> on two Python strings.\<close>

fun contains :: "string \<Rightarrow> string \<Rightarrow> bool" where
  "contains needle [] = (needle = [])"
| "contains needle (h # hs) = (starts_with needle (h # hs) \<or> contains needle hs)"

definition latin_capitals :: string where
  "latin_capitals =
     [CHR 0xC0, CHR 0xC1, CHR 0xC2, CHR 0xC3, CHR 0xC4, CHR 0xC5, CHR 0xC6, CHR 0xC7,
      CHR 0xC8, CHR 0xC9, CHR 0xCA, CHR 0xCB, CHR 0xCC, CHR 0xCD, CHR 0xCE, CHR 0xCF,
      CHR 0xD0, CHR 0xD1, CHR 0xD2, CHR 0xD3, CHR 0xD4, CHR 0xD5, CHR 0xD6,
      CHR 0xD8, CHR 0xD9, CHR 0xDA, CHR 0xDB, CHR 0xDC, CHR 0xDD, CHR 0xDE]"

definition latin_smalls :: string where
  "latin_smalls =
     [CHR 0xE0, CHR 0xE1, CHR 0xE2, CHR 0xE3, CHR 0xE4, CHR 0xE5, CHR 0xE6, CHR 0xE7,
      CHR 0xE8, CHR 0xE9, CHR 0xEA, CHR 0xEB, CHR 0xEC, CHR 0xED, CHR 0xEE, CHR 0xEF,
      CHR 0xF0, CHR 0xF1, CHR 0xF2, CHR 0xF3, CHR 0xF4, CHR 0xF5, CHR 0xF6,
      CHR 0xF8, CHR 0xF9, CHR 0xFA, CHR 0xFB, CHR 0xFC, CHR 0xFD, CHR 0xFE]"

definition lower_char :: "char \<Rightarrow> char" where
  "lower_char c =
     (case map_of (zip ''ABCDEFGHIJKLMNOPQRSTUVWXYZ'' ''abcdefghijklmnopqrstuvwxyz'') c of
        Some l \<Rightarrow> l
      | None \<Rightarrow> (case map_of (zip latin_capitals latin_smalls) c of None \<Rightarrow> c | Some l \<Rightarrow> l))"

definition lower :: "string \<Rightarrow> string" where
  "lower s = map lower_char s"

definition is_space :: "char \<Rightarrow> bool" where
  "is_space c = ((of_char c :: nat) \<in> {9, 10, 11, 12, 13, 28, 29, 30, 31, 32, 133, 160})"

definition strip :: "string \<Rightarrow> string" where
  "strip s = rev (dropWhile is_space (rev (dropWhile is_space s)))"

text \<open>\<^verbatim>\<open>s.split()\<close>: the maximal runs of characters that are not white space. \<open>cur\<close>
  is the word being read, reversed.\<close>

fun split_from :: "string \<Rightarrow> string \<Rightarrow> string list" where
  "split_from cur [] = (if cur = [] then [] else [rev cur])"
| "split_from cur (c # cs) =
     (if is_space c
      then (if cur = [] then split_from [] cs else rev cur # split_from [] cs)
      else split_from (c # cur) cs)"

definition split_words :: "string \<Rightarrow> string list" where
  "split_words s = split_from [] s"

text \<open>\<^verbatim>\<open>s.replace(old, new)\<close> for a text \<open>old\<close> that is not empty: the occurrences of
  \<open>old\<close> are replaced from left to right, without overlap. \<open>skip\<close> counts the characters
  of an occurrence that are still to be dropped.\<close>

fun replace_from :: "nat \<Rightarrow> string \<Rightarrow> string \<Rightarrow> string \<Rightarrow> string" where
  "replace_from skip old new [] = []"
| "replace_from (Suc k) old new (c # cs) = replace_from k old new cs"
| "replace_from 0 old new (c # cs) =
     (if old \<noteq> [] \<and> starts_with old (c # cs)
      then new @ replace_from (length old - 1) old new cs
      else c # replace_from 0 old new cs)"

definition replace :: "string \<Rightarrow> string \<Rightarrow> string \<Rightarrow> string" where
  "replace old new s = replace_from 0 old new s"

section \<open>Field maps\<close>

text \<open>
  A provided-information dictionary maps a field name to a string, to the flag
  \<^verbatim>\<open>True\<close> (Resume/CV), to a list of entries (Education, Work Experience; each
  entry a JSON object with text values) or to a list of strings (Skills). A Python
  \<^verbatim>\<open>dict\<close> keeps its keys in insertion order and holds each key once; it is modelled
  as the association list of its items in that order. \<^verbatim>\<open>d[k] = v\<close> is
  \<^const>\<open>AList.update\<close>: it replaces the value in place when the key is there and appends
  the item otherwise.
\<close>

type_synonym entry = "(string \<times> string) list"

datatype field_value =
    Str string
  | Flag bool
  | Entries "entry list"
  | Strs "string list"

type_synonym info = "(string \<times> field_value) list"

text \<open>\<^verbatim>\<open>k in d\<close>.\<close>

definition has_key :: "string \<Rightarrow> (string \<times> 'b) list \<Rightarrow> bool" where
  "has_key k d = (k \<in> set (map fst d))"

text \<open>\<^verbatim>\<open>d.update(other)\<close>: the items of \<open>other\<close> are stored into \<open>d\<close> one by one, in
  the order of \<open>other\<close>.\<close>

definition dict_update :: "info \<Rightarrow> info \<Rightarrow> info" where
  "dict_update d other = fold (\<lambda>(k, v). AList.update k v) other d"

text \<open>The well-formedness of a dictionary: no key twice.\<close>

definition wf_dict :: "('a \<times> 'b) list \<Rightarrow> bool" where
  "wf_dict d = distinct (map fst d)"

section \<open>The conversation manager (utils/conversation_manager.py)\<close>

record message =
  role :: string
  content :: string
  timestamp :: string
  msg_provided_information :: "info option"

text \<open>
  A file of the conversation cache directory. \<^verbatim>\<open>open(file_path, 'w')\<close> truncates the
  file before \<^verbatim>\<open>json.dump\<close> writes it, so a write can end in three ways: the record
  is written, the file could not be opened (the old content stays), or the dump failed
  after the file was truncated.
\<close>

datatype cache_file =
    Saved "message list" info
  | Truncated

datatype write_outcome = Written | Open_failed | Dump_failed

record conversation_manager =
  active_threads :: "string \<rightharpoonup> message list"
  provided_information :: "string \<rightharpoonup> info"
  conversation_cache :: "string \<rightharpoonup> cache_file"

definition get_conversation_history :: "conversation_manager \<Rightarrow> string \<Rightarrow> message list" where
  "get_conversation_history cm thread_id =
     (case active_threads cm thread_id of None \<Rightarrow> [] | Some ms \<Rightarrow> ms)"

definition get_provided_information :: "conversation_manager \<Rightarrow> string \<Rightarrow> info" where
  "get_provided_information cm thread_id =
     (case provided_information cm thread_id of None \<Rightarrow> [] | Some d \<Rightarrow> d)"

text \<open>
  \<^verbatim>\<open>save_conversation\<close>: nothing happens for a thread that is not active; otherwise the
  messages and the provided information are written to the thread's file. Every exception
  of the write is caught and logged inside the function, so the caller never sees it.
\<close>

definition save_conversation ::
  "write_outcome \<Rightarrow> string \<Rightarrow> conversation_manager \<Rightarrow> conversation_manager" where
  "save_conversation w thread_id cm =
     (case active_threads cm thread_id of
        None \<Rightarrow> cm
      | Some ms \<Rightarrow>
          (case w of
             Written \<Rightarrow>
               cm\<lparr>conversation_cache := (conversation_cache cm)
                     (thread_id \<mapsto> Saved ms (get_provided_information cm thread_id))\<rparr>
           | Open_failed \<Rightarrow> cm
           | Dump_failed \<Rightarrow>
               cm\<lparr>conversation_cache := (conversation_cache cm)(thread_id \<mapsto> Truncated)\<rparr>))"

text \<open>
  \<^verbatim>\<open>add_message\<close>. \<open>provided_info\<close> is \<open>None\<close> for the default argument; the test
  \<^verbatim>\<open>if provided_info and role == "applicant"\<close> is Python truthiness, false for
  \<^verbatim>\<open>None\<close> and for the empty dictionary. \<open>now\<close> is the value of
  \<^verbatim>\<open>datetime.now().isoformat()\<close>. The thread's message list and dictionary are
  created empty when the thread is new (\<open>ms0\<close>, \<open>d0\<close>). The merge and the append are
  done in memory before \<^verbatim>\<open>save_conversation\<close> is called.
\<close>

definition add_message ::
  "write_outcome \<Rightarrow> string \<Rightarrow> string \<Rightarrow> string \<Rightarrow> string \<Rightarrow> info option \<Rightarrow>
   conversation_manager \<Rightarrow> conversation_manager" where
  "add_message w now thread_id rl text provided_info cm =
     (let ms0 = (case active_threads cm thread_id of None \<Rightarrow> [] | Some ms \<Rightarrow> ms);
          d0 = (case provided_information cm thread_id of None \<Rightarrow> [] | Some d \<Rightarrow> d);
          merged = (case provided_info of
                      None \<Rightarrow> None
                    | Some p \<Rightarrow> if p \<noteq> [] \<and> rl = ''applicant'' then Some p else None);
          msg = \<lparr>role = rl, content = text, timestamp = now,
                 msg_provided_information = merged\<rparr>;
          d1 = (case merged of None \<Rightarrow> d0 | Some p \<Rightarrow> dict_update d0 p)
      in save_conversation w thread_id
           (cm\<lparr>active_threads := (active_threads cm)(thread_id \<mapsto> ms0 @ [msg]),
               provided_information := (provided_information cm)(thread_id \<mapsto> d1)\<rparr>))"

text \<open>
  \<^verbatim>\<open>complete_conversation\<close>: an active thread is saved one last time and deleted from
  \<^verbatim>\<open>active_threads\<close>; \<^verbatim>\<open>provided_information\<close> is not touched.
\<close>

definition complete_conversation ::
  "write_outcome \<Rightarrow> string \<Rightarrow> conversation_manager \<Rightarrow> conversation_manager" where
  "complete_conversation w thread_id cm =
     (case active_threads cm thread_id of
        None \<Rightarrow> cm
      | Some _ \<Rightarrow>
          (let cm1 = save_conversation w thread_id cm
           in cm1\<lparr>active_threads := (active_threads cm1)(thread_id := None)\<rparr>))"

definition update_provided_information ::
  "write_outcome \<Rightarrow> string \<Rightarrow> info \<Rightarrow> conversation_manager \<Rightarrow> conversation_manager" where
  "update_provided_information w thread_id provided_info cm =
     (let d0 = (case provided_information cm thread_id of None \<Rightarrow> [] | Some d \<Rightarrow> d)
      in save_conversation w thread_id
           (cm\<lparr>provided_information :=
                 (provided_information cm)(thread_id \<mapsto> dict_update d0 provided_info)\<rparr>))"

text \<open>The manager right after \<^verbatim>\<open>__init__\<close> on an empty cache directory.\<close>

definition empty_manager :: conversation_manager where
  "empty_manager =
     \<lparr>active_threads = Map.empty, provided_information = Map.empty,
      conversation_cache = Map.empty\<rparr>"

text \<open>The calls that change a ledger, and a sequence of them run in order.\<close>

datatype ledger_call =
    Add_message write_outcome string string string string "info option"
  | Update_provided_information write_outcome string info
  | Complete_conversation write_outcome string

fun run_call :: "ledger_call \<Rightarrow> conversation_manager \<Rightarrow> conversation_manager" where
  "run_call (Add_message w now t rl text p) cm = add_message w now t rl text p cm"
| "run_call (Update_provided_information w t p) cm = update_provided_information w t p cm"
| "run_call (Complete_conversation w t) cm = complete_conversation w t cm"

definition run_calls :: "ledger_call list \<Rightarrow> conversation_manager \<Rightarrow> conversation_manager" where
  "run_calls cs cm = fold run_call cs cm"

section \<open>Job requirements (config/job_requirements.py)\<close>

record requirement =
  name :: string
  description :: string

definition required_information :: "requirement list" where
  "required_information =
     [\<lparr>name = ''Full Name'',
        description = ''Applicant's complete name (first and last name)''\<rparr>,
      \<lparr>name = ''Email Address'', description = ''Valid email address for communication''\<rparr>,
      \<lparr>name = ''Phone Number'', description = ''Valid phone number''\<rparr>,
      \<lparr>name = ''Resume/CV'', description = ''Detailed resume or CV as an attachment''\<rparr>,
      \<lparr>name = ''Work Experience'', description = ''Any work experience''\<rparr>,
      \<lparr>name = ''Education'',
        description = ''Highest level of education and field of study''\<rparr>]"


section \<open>Emails and their classification (main.py, config/settings.py)\<close>

record attachment =
  filename :: string
  content_type :: string
  attachment_id :: string

record email_data =
  sender_name :: string
  sender_email :: string
  subject :: string
  body :: string
  attachments :: "attachment list"
  thread_id :: string
  message_id :: string

definition HR_EMAIL :: string where
  "HR_EMAIL = ''cindysim@arxmedia.co''"

text \<open>\<^verbatim>\<open>any(keyword in text for keyword in keywords)\<close>.\<close>

definition any_in :: "string list \<Rightarrow> string \<Rightarrow> bool" where
  "any_in keywords text = list_ex (\<lambda>k. contains k text) keywords"

definition subject_keywords :: "string list" where
  "subject_keywords =
     [''application'', ''apply'', ''job'', ''position'', ''resume'', ''cv'', ''candidate'',
      ''opportunity'', ''career'']"

definition body_keywords :: "string list" where
  "body_keywords =
     [''apply'', ''application'', ''position'', ''job'', ''opportunity'', ''resume'', ''cv'',
      ''work experience'', ''education'', ''qualification'', ''skill'', ''background'',
      ''interview'', ''hiring'', ''employment'', ''career'', ''consideration'']"

definition document_types :: "string list" where
  "document_types =
     [''application/pdf'', ''application/msword'',
      ''application/vnd.openxmlformats-officedocument.wordprocessingml.document'']"

text \<open>The loop over the attachments of \<^verbatim>\<open>classify_email\<close> stops at the first attachment
  that has a document type or a resume-like file name.\<close>

definition looks_like_resume :: "attachment \<Rightarrow> bool" where
  "looks_like_resume a =
     (content_type a \<in> set document_types \<or>
      contains ''resume'' (lower (filename a)) \<or> contains ''cv'' (lower (filename a)) \<or>
      contains ''curriculum'' (lower (filename a)))"

text \<open>\<^verbatim>\<open>classify_email\<close> returns the dictionary \<^verbatim>\<open>{"is_job_application": b}\<close>; the
  model returns \<open>b\<close>.\<close>

definition classify_email :: "email_data \<Rightarrow> bool" where
  "classify_email e =
     (if sender_email e = HR_EMAIL \<or> contains HR_EMAIL (sender_email e) then False
      else
        (let subj = lower (subject e);
             subject_matches = any_in subject_keywords subj;
             body_matches = any_in body_keywords (lower (body e));
             has_resume = list_ex looks_like_resume (attachments e)
         in if subject_matches \<and> (body_matches \<or> has_resume) then True
            else if body_matches \<and> has_resume then True
            else if subject_matches \<and>
                    any_in [''application'', ''apply'', ''job'', ''position''] subj then True
            else False))"

section \<open>The analysis of an application (main.py, analyze_resume)\<close>

text \<open>
  The dictionary that \<^verbatim>\<open>analyze_resume\<close> returns and \<^verbatim>\<open>generate_response\<close> reads. A key
  that may be absent is an \<open>option\<close>. The record holds the well-formed shape: the
  extracted information is an object whose personal information is an object with text
  values and whose education and work experience are lists of objects with text values.
  Extracted information that was kept as plain text, because it was not valid JSON, is
  carried beside the record (\<open>plain_extraction\<close> below).
\<close>

record extracted_info =
  personal_information :: "entry option"
  education :: "entry list option"
  work_experience :: "entry list option"
  skills :: "string list option"

record analysis_result =
  extracted_information :: "extracted_info option"
  missing_information :: "requirement list option"
  application_complete :: "bool option"
  response_text :: "string option"

text \<open>The empty dictionary, returned from every \<^verbatim>\<open>except\<close> branch.\<close>

definition empty_result :: analysis_result where
  "empty_result =
     \<lparr>extracted_information = None, missing_information = None,
      application_complete = None, response_text = None\<rparr>"

text \<open>
  The reply of the model that is asked for the missing information, as
  \<^verbatim>\<open>analyze_resume\<close> sees it:
  \<^item> \<open>Reply_object m\<close>: the text (or its \<^verbatim>\<open>```json\<close> block) is a JSON object;
    \<open>m\<close> is its \<^verbatim>\<open>missing_information\<close> entry when it has one;
  \<^item> \<open>Reply_text t found\<close>: \<^verbatim>\<open>json.loads\<close> raised \<^verbatim>\<open>JSONDecodeError\<close>; \<open>t\<close>
    is the text and \<open>found\<close> the matches of \<^verbatim>\<open>re.findall\<close> for the four patterns, in
    the order of the patterns;
  \<^item> \<open>Reply_failed\<close>: the call or the parsing raised any other exception.
\<close>

datatype missing_info_reply =
    Reply_object "requirement list option"
  | Reply_text string "string list"
  | Reply_failed

definition field_names :: "string list" where
  "field_names =
     [''Full Name'', ''Phone Number'', ''Email Address'', ''Resume/CV'', ''Work Experience'',
      ''Education'']"

definition required_item :: "string \<Rightarrow> requirement" where
  "required_item n = \<lparr>name = n, description = ''Required '' @ lower n @ '' information''\<rparr>"

text \<open>The loop over the matches of the fallback: a match that is one of the six field
  names is appended unless an item of that name is already in the list.\<close>

fun add_found :: "string list \<Rightarrow> requirement list \<Rightarrow> requirement list" where
  "add_found [] acc = acc"
| "add_found (m # ms) acc =
     (let n = strip m
      in if n \<in> set field_names \<and> \<not> list_ex (\<lambda>item. name item = n) acc
         then add_found ms (acc @ [required_item n])
         else add_found ms acc)"

text \<open>
  The end of \<^verbatim>\<open>analyze_resume\<close>: \<open>result\<close> is the parsed tool response, in which the
  keys \<^verbatim>\<open>missing_information\<close> and \<^verbatim>\<open>application_complete\<close> are then set from the
  reply.
\<close>

definition analyze_resume :: "analysis_result \<Rightarrow> missing_info_reply \<Rightarrow> analysis_result" where
  "analyze_resume result reply =
     (case reply of
        Reply_object m \<Rightarrow>
          (let missing = (case m of None \<Rightarrow> [] | Some items \<Rightarrow> items)
           in result\<lparr>missing_information := Some missing,
                     application_complete := Some (missing = [])\<rparr>)
      | Reply_text t found \<Rightarrow>
          (let missing = (if contains ''missing'' (lower t) then add_found found [] else [])
           in result\<lparr>missing_information := Some missing,
                     application_complete :=
                       Some (if missing \<noteq> [] then False
                             else contains ''complete'' (lower t) \<and>
                                  \<not> contains ''incomplete'' (lower t))\<rparr>)
      | Reply_failed \<Rightarrow> empty_result)"

section \<open>The information an email provides (main.py)\<close>

text \<open>
  What the regular expressions and the file system give for one email:
  \<open>phone_match\<close> and \<open>education_match\<close> are \<^verbatim>\<open>match.group(1)\<close> of the two searches of the
  body (\<open>None\<close> when the search finds nothing), \<open>images_exist\<close> says whether the folder
  of attachment images of the thread exists.
\<close>

record body_scan =
  phone_match :: "string option"
  education_match :: "string option"
  images_exist :: bool

text \<open>\<^verbatim>\<open>d[k] = v\<close>.\<close>

definition dict_set :: "string \<Rightarrow> field_value \<Rightarrow> info \<Rightarrow> info" where
  "dict_set k v d = AList.update k v d"

text \<open>The education found in the body is appended to the list under \<^verbatim>\<open>Education\<close>,
  which is created empty when the key is absent.\<close>

definition append_education :: "string \<Rightarrow> info \<Rightarrow> info" where
  "append_education found d =
     (let old = (case map_of d ''Education'' of Some (Entries es) \<Rightarrow> es | _ \<Rightarrow> [])
      in dict_set ''Education'' (Entries (old @ [[(''description'', strip found)]])) d)"

definition names_a_resume :: "attachment \<Rightarrow> bool" where
  "names_a_resume a =
     (content_type a = ''application/pdf'' \<or> contains ''resume'' (lower (filename a)) \<or>
      contains ''cv'' (lower (filename a)))"

text \<open>\<^verbatim>\<open>basic_info\<close> of \<^verbatim>\<open>process_email\<close>.\<close>

definition basic_info :: "email_data \<Rightarrow> body_scan \<Rightarrow> info" where
  "basic_info e scan =
     (let d1 = (if sender_name e \<noteq> [] then dict_set ''Full Name'' (Str (sender_name e)) [] else []);
          d2 = (if sender_email e \<noteq> [] then dict_set ''Email Address'' (Str (sender_email e)) d1
                else d1);
          d3 = (case phone_match scan of
                  None \<Rightarrow> d2
                | Some g \<Rightarrow> dict_set ''Phone Number'' (Str (strip g)) d2);
          d4 = (if list_ex names_a_resume (attachments e)
                then dict_set ''Resume/CV'' (Flag True) d3 else d3)
      in case education_match scan of None \<Rightarrow> d4 | Some g \<Rightarrow> append_education g d4)"

text \<open>\<^verbatim>\<open>'k' in d and d['k']\<close> on an object with text values: the value when the key is
  there and the text is not empty.\<close>

definition text_of :: "string \<Rightarrow> entry \<Rightarrow> string option" where
  "text_of k d = (case map_of d k of None \<Rightarrow> None | Some v \<Rightarrow> if v = [] then None else Some v)"

text \<open>\<^verbatim>\<open>provided_info\<close> of \<^verbatim>\<open>process_job_application\<close>, built from the analysis result
  and from the email.\<close>

definition from_personal :: "entry \<Rightarrow> info \<Rightarrow> info" where
  "from_personal p d =
     (let d1 = (case text_of ''name'' p of None \<Rightarrow> d | Some v \<Rightarrow> dict_set ''Full Name'' (Str v) d);
          d2 = (case text_of ''email'' p of
                  None \<Rightarrow> d1 | Some v \<Rightarrow> dict_set ''Email Address'' (Str v) d1)
      in case text_of ''phone'' p of None \<Rightarrow> d2 | Some v \<Rightarrow> dict_set ''Phone Number'' (Str v) d2)"

definition from_extracted :: "extracted_info \<Rightarrow> info" where
  "from_extracted x =
     (let d1 = (case personal_information x of None \<Rightarrow> [] | Some p \<Rightarrow> from_personal p []);
          d2 = (case education x of
                  None \<Rightarrow> d1
                | Some es \<Rightarrow> if es = [] then d1 else dict_set ''Education'' (Entries es) d1);
          d3 = (case work_experience x of
                  None \<Rightarrow> d2
                | Some ws \<Rightarrow> if ws = [] then d2 else dict_set ''Work Experience'' (Entries ws) d2)
      in case skills x of
           None \<Rightarrow> d3
         | Some ss \<Rightarrow> if ss = [] then d3 else dict_set ''Skills'' (Strs ss) d3)"

definition provided_info :: "email_data \<Rightarrow> analysis_result \<Rightarrow> body_scan \<Rightarrow> info" where
  "provided_info e analysis scan =
     (let d1 = (case extracted_information analysis of None \<Rightarrow> [] | Some x \<Rightarrow> from_extracted x);
          d2 = (if attachments e \<noteq> [] \<or> images_exist scan
                then dict_set ''Resume/CV'' (Flag True) d1 else d1);
          d3 = (case phone_match scan of
                  None \<Rightarrow> d2
                | Some g \<Rightarrow> dict_set ''Phone Number'' (Str (strip g)) d2)
      in case education_match scan of None \<Rightarrow> d3 | Some g \<Rightarrow> append_education g d3)"

section \<open>The completeness verdict (main.py, generate_response)\<close>

text \<open>
  What the regular expressions of \<^verbatim>\<open>generate_response\<close> find: \<open>bold_labels\<close> are the
  matches of \<^verbatim>\<open>re.findall(r'\*\*(.*?):\*\*', response_text)\<close>; \<open>signoff_names\<close> holds,
  for each sign-off pattern that matches the lower-cased body, in the order of the
  patterns, the value of \<^verbatim>\<open>match.group(1).strip().title()\<close>.
\<close>

record reply_scan =
  bold_labels :: "string list"
  signoff_names :: "string list"

text \<open>The default first name: \<^verbatim>\<open>email_data['sender_name'].split()[0]\<close>, replaced by the
  first word of the extracted name when that name has more than two characters. \<open>None\<close>
  is the \<^verbatim>\<open>IndexError\<close> of \<^verbatim>\<open>[0]\<close> on an empty list of words.\<close>

definition default_name :: "email_data \<Rightarrow> analysis_result \<Rightarrow> string option" where
  "default_name e analysis =
     (case split_words (sender_name e) of
        [] \<Rightarrow> None
      | w # _ \<Rightarrow>
          (case extracted_information analysis of
             None \<Rightarrow> Some w
           | Some x \<Rightarrow>
               (case personal_information x of
                  None \<Rightarrow> Some w
                | Some p \<Rightarrow>
                    (case text_of ''name'' p of
                       None \<Rightarrow> Some w
                     | Some n \<Rightarrow>
                         if length n > 2
                         then (case split_words n of [] \<Rightarrow> None | w' # _ \<Rightarrow> Some w')
                         else Some w))))"

text \<open>The items appended for the bold labels of the response text, when the list of the
  analysis is empty and the response text speaks of something missing.\<close>

definition labelled_missing :: "analysis_result \<Rightarrow> string list \<Rightarrow> requirement list" where
  "labelled_missing analysis labels =
     (case response_text analysis of
        None \<Rightarrow> []
      | Some rt \<Rightarrow>
          if contains ''missing'' (lower rt)
          then map required_item (filter (\<lambda>n. n \<in> set field_names) (map strip labels))
          else [])"

text \<open>\<^verbatim>\<open>[item for item in missing_info if item['name'] != n]\<close>.\<close>

definition without :: "string \<Rightarrow> requirement list \<Rightarrow> requirement list" where
  "without n items = filter (\<lambda>item. name item \<noteq> n) items"

definition work_experience_provided :: "analysis_result \<Rightarrow> bool" where
  "work_experience_provided analysis =
     ((case extracted_information analysis of
         None \<Rightarrow> False
       | Some x \<Rightarrow> (case work_experience x of None \<Rightarrow> False | Some ws \<Rightarrow> ws \<noteq> [])) \<or>
      (case response_text analysis of
         None \<Rightarrow> False
       | Some rt \<Rightarrow>
           contains ''work experience'' (lower rt) \<or>
           contains ''assistant hotel manager'' (lower rt) \<or>
           contains ''job title'' (lower rt)))"

text \<open>The loop over the sign-off patterns keeps the name of the last pattern that
  matched and stops at the first name of two words or more.\<close>

fun body_name_from :: "string list \<Rightarrow> string option \<Rightarrow> string option" where
  "body_name_from [] found = found"
| "body_name_from (n # ns) found =
     (if length (split_words n) \<ge> 2 then Some n else body_name_from ns (Some n))"

definition body_name :: "email_data \<Rightarrow> reply_scan \<Rightarrow> string option" where
  "body_name e scan = (if body e \<noteq> [] then body_name_from (signoff_names scan) None else None)"

definition attachment_name :: "analysis_result \<Rightarrow> string option" where
  "attachment_name analysis =
     (case response_text analysis of
        None \<Rightarrow> None
      | Some rt \<Rightarrow>
          if contains ''full name'' (lower rt) \<and> contains ''lisandro milanesi'' (lower rt)
          then Some ''Lisandro Milanesi'' else None)"

text \<open>
  The education check. \<open>scan_education\<close> is the loop over the extracted education
  entries: an entry whose description has a negative phrase sets the flag and stops the
  loop, an entry with a description of more than ten characters and no negative word
  clears the flag.
\<close>

definition negative_description :: "string \<Rightarrow> bool" where
  "negative_description desc =
     (contains ''not specified'' desc \<or> contains ''not provided'' desc \<or>
      contains ''lacks educational details'' desc \<or> contains ''does not contain'' desc \<or>
      contains ''not present'' desc)"

fun scan_education :: "entry list \<Rightarrow> bool \<Rightarrow> bool" where
  "scan_education [] missing = missing"
| "scan_education (edu # rest) missing =
     (case map_of edu ''description'' of
        None \<Rightarrow> scan_education rest missing
      | Some d \<Rightarrow>
          (let desc = lower d
           in if negative_description desc then True
              else if length desc > 10 \<and> \<not> contains ''not'' desc \<and>
                      \<not> contains ''missing'' desc \<and> \<not> contains ''lacks'' desc
              then scan_education rest False
              else scan_education rest missing))"

definition response_says_no_education :: "string \<Rightarrow> bool" where
  "response_says_no_education rt =
     ((contains ''not specified'' rt \<and> contains ''education'' rt) \<or>
      (contains ''does not contain'' rt \<and> contains ''education'' rt) \<or>
      contains ''no education'' rt \<or> contains ''missing education'' rt \<or>
      contains ''education details are not provided'' rt \<or>
      contains ''education section is not present'' rt \<or>
      contains ''lacks educational details'' rt \<or> contains ''education is missing'' rt \<or>
      contains ''education: -'' rt \<or> contains ''education: not'' rt)"

definition education_missing :: "info \<Rightarrow> email_data \<Rightarrow> analysis_result \<Rightarrow> bool" where
  "education_missing provided e analysis =
     (if has_key ''Education'' provided then False
      else
        (let m1 = (case extracted_information analysis of
                     None \<Rightarrow> True
                   | Some x \<Rightarrow>
                       (case education x of None \<Rightarrow> True | Some es \<Rightarrow> scan_education es True));
             m2 = (case response_text analysis of
                     None \<Rightarrow> m1
                   | Some t \<Rightarrow>
                       (let rt = lower t
                        in if contains ''education'' rt
                           then (if response_says_no_education rt then True
                                 else if contains ''bachelor'' rt \<or> contains ''master'' rt \<or>
                                         contains ''phd'' rt \<or> contains ''degree in'' rt
                                 then False else m1)
                           else m1));
             b = lower (body e)
         in if body e \<noteq> [] \<and>
               (contains ''bachelor'' b \<or> contains ''master'' b \<or> contains ''phd'' b \<or>
                contains ''degree'' b \<or> contains ''university'' b \<or> contains ''college'' b)
            then False else m2))"

definition education_item :: requirement where
  "education_item =
     \<lparr>name = ''Education'', description = ''Highest level of education and field of study''\<rparr>"

text \<open>
  The branch of \<^verbatim>\<open>generate_response\<close> for an analysis that is not complete, up to the
  log line "Missing information after processing": the list of missing items, and the
  provided-information dictionary after the assignment of the name found in the
  attachment or in the body.
\<close>

definition missing_after_processing ::
  "info \<Rightarrow> email_data \<Rightarrow> analysis_result \<Rightarrow> reply_scan \<Rightarrow> requirement list \<times> info" where
  "missing_after_processing provided e analysis scan =
     (let m0 = (case missing_information analysis of None \<Rightarrow> [] | Some items \<Rightarrow> items);
          m1 = (if m0 = [] then labelled_missing analysis (bold_labels scan) else m0);
          m2 = (if m1 = []
                then filter (\<lambda>req. \<not> has_key (name req) provided) required_information
                else m1);
          m3 = (if has_key ''Email Address'' provided \<or> sender_email e \<noteq> []
                then without ''Email Address'' m2 else m2);
          m4 = (if has_key ''Resume/CV'' provided \<or> attachments e \<noteq> []
                then without ''Resume/CV'' m3 else m3);
          m5 = (if work_experience_provided analysis then without ''Work Experience'' m4 else m4);
          best_name = (case attachment_name analysis of
                         Some n \<Rightarrow> Some n
                       | None \<Rightarrow>
                           (case body_name e scan of
                              None \<Rightarrow> None
                            | Some n \<Rightarrow> if n = [] then None else Some n));
          m6 = (case best_name of None \<Rightarrow> m5 | Some _ \<Rightarrow> without ''Full Name'' m5);
          provided1 = (case best_name of
                         None \<Rightarrow> provided
                       | Some n \<Rightarrow> dict_set ''Full Name'' (Str n) provided);
          m7 = (if education_missing provided1 e analysis \<and>
                   \<not> list_ex (\<lambda>item. name item = ''Education'') m6
                then m6 @ [education_item] else m6)
      in (m7, provided1))"

text \<open>
  The verdict of \<^verbatim>\<open>generate_response\<close>: the list of missing items and the flag
  \<^verbatim>\<open>application_complete\<close>. An analysis that says complete is taken at its word; otherwise
  the application is complete exactly when the list after processing is empty.
\<close>

record verdict =
  missing :: "requirement list"
  complete :: bool

definition evaluate_completeness ::
  "info \<Rightarrow> email_data \<Rightarrow> analysis_result \<Rightarrow> reply_scan \<Rightarrow> verdict" where
  "evaluate_completeness provided e analysis scan =
     (if application_complete analysis = Some True
      then \<lparr>missing = (case missing_information analysis of None \<Rightarrow> [] | Some items \<Rightarrow> items),
            complete = True\<rparr>
      else (let m = fst (missing_after_processing provided e analysis scan)
            in \<lparr>missing = m, complete = (m = [])\<rparr>))"

section \<open>Replies and the mailbox (main.py, utils/email_processor.py)\<close>

text \<open>
  The state that processing one email changes: the conversation manager, the mails
  that were sent (recipient, subject, text: the replies to applicants and the
  notifications to the HR address) and the messages that carry the label
  \<^verbatim>\<open>UNREAD\<close>.
\<close>

record world =
  manager :: conversation_manager
  sent :: "(string \<times> string \<times> string) list"
  unread :: "string list"

text \<open>
  What the world outside gives while one email is processed: the parsed tool response
  and the reply about missing information of \<^verbatim>\<open>analyze_resume\<close>, the matches of the
  regular expressions, the text of the reply written by the model (\<open>None\<close> when the call
  raises), whether the send and the mark-as-read requests succeed, the two time stamps,
  the outcome of each write of the conversation file, the summary of the background
  check (\<open>None\<close> when the check or the write of its result file raises) and whether the
  notification to the HR address can be sent.

  \<^verbatim>\<open>extract_tool_response\<close> stores the extracted information of the reply as plain text
  when it is not valid JSON (tool_response_extractor.py, 141 to 145).
  \<open>plain_extraction\<close> is that text; the extracted information of the record
  \<open>tool_response\<close> is not looked at then (\<open>tool_result\<close>).
\<close>

record externals =
  tool_response :: analysis_result
  plain_extraction :: "string option"
  missing_reply :: missing_info_reply
  scanned_body :: body_scan
  scanned_reply :: reply_scan
  reply_text :: "string option"
  send_ok :: bool
  mark_ok :: bool
  received_at :: string
  replied_at :: string
  write_received :: write_outcome
  write_update :: write_outcome
  write_reply :: write_outcome
  write_complete :: write_outcome
  background_check :: "string option"
  notify_ok :: bool

definition tool_result :: "externals \<Rightarrow> analysis_result" where
  "tool_result env =
     (case plain_extraction env of
        None \<Rightarrow> tool_response env
      | Some _ \<Rightarrow> (tool_response env)\<lparr>extracted_information := None\<rparr>)"

text \<open>\<^verbatim>\<open>send_email_response\<close> catches the exception of a failed send and returns
  \<^verbatim>\<open>False\<close>; \<^verbatim>\<open>mark_as_read\<close> does the same for a failed request.\<close>

definition send_email_response :: "bool \<Rightarrow> email_data \<Rightarrow> string \<Rightarrow> world \<Rightarrow> bool \<times> world" where
  "send_email_response ok e text w =
     (if ok then (True, w\<lparr>sent := sent w @ [(sender_email e, ''Re: '' @ subject e, text)]\<rparr>)
      else (False, w))"

definition mark_as_read :: "bool \<Rightarrow> string \<Rightarrow> world \<Rightarrow> bool \<times> world" where
  "mark_as_read ok mid w =
     (if ok then (True, w\<lparr>unread := removeAll mid (unread w)\<rparr>) else (False, w))"

text \<open>The result dictionary of \<^verbatim>\<open>generate_response\<close>; the empty dictionary of its
  \<^verbatim>\<open>except\<close> branch is \<open>None\<close>.\<close>

record response =
  text_of_reply :: string
  says_complete :: bool

text \<open>
  \<^verbatim>\<open>get_provided_information\<close> returns the dictionary of the thread itself, so the
  assignment of the name in \<^verbatim>\<open>generate_response\<close> changes the manager's dictionary in
  memory when the thread has one (it is not saved); for a thread without one the
  assignment is made on a fresh dictionary and lost.
\<close>

definition assign_in_memory :: "string \<Rightarrow> info \<Rightarrow> conversation_manager \<Rightarrow> conversation_manager" where
  "assign_in_memory tid d cm =
     (case provided_information cm tid of
        None \<Rightarrow> cm
      | Some _ \<Rightarrow> cm\<lparr>provided_information := (provided_information cm)(tid \<mapsto> d)\<rparr>)"

text \<open>
  \<^verbatim>\<open>generate_response\<close>. The return value of \<^verbatim>\<open>send_email_response\<close> is not looked
  at: the result is the same whether the reply was sent or not.
\<close>

definition generate_response ::
  "externals \<Rightarrow> email_data \<Rightarrow> analysis_result \<Rightarrow> world \<Rightarrow> response option \<times> world" where
  "generate_response env e analysis w =
     (case default_name e analysis of
        None \<Rightarrow> (None, w)
      | Some _ \<Rightarrow>
          (let provided = get_provided_information (manager w) (thread_id e);
               v = evaluate_completeness provided e analysis (scanned_reply env);
               w1 = (if application_complete analysis = Some True then w
                     else w\<lparr>manager :=
                            assign_in_memory (thread_id e)
                              (snd (missing_after_processing provided e analysis
                                      (scanned_reply env)))
                              (manager w)\<rparr>)
           in case reply_text env of
                None \<Rightarrow> (None, w1)
              | Some t \<Rightarrow>
                  (Some \<lparr>text_of_reply = strip t, says_complete = complete v\<rparr>,
                   snd (send_email_response (send_ok env) e (strip t) w1))))"

text \<open>
  The notification to the HR address after a background check
  (\<^verbatim>\<open>send_background_check_notification\<close>). A failed send is caught inside the
  function.
\<close>

definition newline :: string where
  "newline = [CHR 0x0A]"

definition job_title :: "email_data \<Rightarrow> string" where
  "job_title e = strip (replace ''Application for '' [] (subject e))"

definition notification_body :: "email_data \<Rightarrow> string \<Rightarrow> string" where
  "notification_body e summary =
     concat
       [newline, ''Dear HR Manager,'', newline, newline,
        ''A background check has been completed for the following applicant:'', newline,
        newline,
        ''Applicant: '', sender_name e, newline,
        ''Email: '', sender_email e, newline,
        ''Position: '', job_title e, newline, newline,
        ''Background Check Summary:'', newline,
        summary, newline, newline,
        ''The full background check results have been saved to the system and can be '',
        ''accessed for further review.'', newline, newline,
        ''This is an automated notification.'', newline, newline,
        ''Best regards,'', newline,
        ''AI Recruitment Assistant'', newline,
        ''        '']"

definition send_background_check_notification ::
  "bool \<Rightarrow> email_data \<Rightarrow> string \<Rightarrow> world \<Rightarrow> world" where
  "send_background_check_notification ok e summary w =
     (if ok
      then w\<lparr>sent := sent w @
                [(HR_EMAIL,
                  ''Background Check Results: '' @ sender_name e @ '' - '' @ job_title e,
                  notification_body e summary)]\<rparr>
      else w)"

text \<open>
  The name for the background check: the first sign-off name of at least one word (the
  sign-off patterns are the six of \<^verbatim>\<open>generate_response\<close>, searched in the body
  without regard to case, and \<^verbatim>\<open>title()\<close> makes the two readings equal), else the
  full name of the provided information, else the extracted name when the key is there
  (also when it is empty), else the sender name.
\<close>

definition first_signoff :: "string list \<Rightarrow> string" where
  "first_signoff names =
     (case filter (\<lambda>n. split_words n \<noteq> []) names of [] \<Rightarrow> [] | n # _ \<Rightarrow> n)"

definition extracted_name :: "analysis_result \<Rightarrow> string option" where
  "extracted_name analysis =
     (case extracted_information analysis of
        None \<Rightarrow> None
      | Some x \<Rightarrow>
          (case personal_information x of None \<Rightarrow> None | Some p \<Rightarrow> map_of p ''name''))"

definition background_check_name ::
  "email_data \<Rightarrow> info \<Rightarrow> analysis_result \<Rightarrow> reply_scan \<Rightarrow> string" where
  "background_check_name e info analysis scan =
     (let signed = (if body e \<noteq> [] then first_signoff (signoff_names scan) else [])
      in if signed \<noteq> [] then signed
         else (case map_of info ''Full Name'' of
                 Some v \<Rightarrow> (case v of Str n \<Rightarrow> n | _ \<Rightarrow> [])
               | None \<Rightarrow>
                   (case extracted_name analysis of
                      Some n \<Rightarrow> n
                    | None \<Rightarrow> sender_name e)))"

text \<open>
  On extracted information that is plain text, the tests \<^verbatim>\<open>'k' in extracted_info\<close> of
  \<^verbatim>\<open>process_job_application\<close> are substring tests and \<^verbatim>\<open>extracted_info['k']\<close> raises
  \<^verbatim>\<open>TypeError\<close>: the function raises as soon as the text names one of the four
  sections it asks for. A text that names none of them is read, there and in
  \<^verbatim>\<open>generate_response\<close>, like a result without extracted information. When
  \<^verbatim>\<open>analyze_resume\<close> itself failed, its result is the empty dictionary and the text is
  gone with it.
\<close>

datatype py_error = TypeError

definition names_a_section :: "string \<Rightarrow> bool" where
  "names_a_section s =
     (contains ''personal_information'' s \<or> contains ''education'' s \<or>
      contains ''work_experience'' s \<or> contains ''skills'' s)"

definition extracted_for_info :: "externals \<Rightarrow> py_error + analysis_result" where
  "extracted_for_info env =
     (case plain_extraction env of
        None \<Rightarrow> Inr (analyze_resume (tool_result env) (missing_reply env))
      | Some s \<Rightarrow>
          if missing_reply env \<noteq> Reply_failed \<and> names_a_section s then Inl TypeError
          else Inr (analyze_resume (tool_result env) (missing_reply env)))"

text \<open>
  \<^verbatim>\<open>process_job_application\<close>, from the call of \<^verbatim>\<open>analyze_resume\<close> on (the download
  and the conversion of the attachments before it catch their own exceptions and
  change nothing of the state modelled here). The body of the function is one
  \<^verbatim>\<open>try\<close>: an exception raised while the provided information is built is caught
  and logged at its end, and nothing after the point of the exception is executed, so
  the state is the one at entry. The education entry found in the body is appended to
  the list object of the analysis result when \<^verbatim>\<open>provided_info['Education']\<close> is that
  object (\<open>shared_education\<close>). When the function gets as far as the reply step, the
  message is marked as read after it whatever that step returned. For a complete
  application the thread is completed, the background check is run for the name found,
  and the HR address is notified; the result file of the check and the temporary files
  are not part of the state modelled here.
\<close>

definition shared_education :: "analysis_result \<Rightarrow> body_scan \<Rightarrow> analysis_result" where
  "shared_education analysis scan =
     (case (extracted_information analysis, education_match scan) of
        (Some x, Some g) \<Rightarrow>
          (case education x of
             None \<Rightarrow> analysis
           | Some es \<Rightarrow>
               if es = [] then analysis
               else analysis\<lparr>extracted_information :=
                      Some (x\<lparr>education := Some (es @ [[(''description'', strip g)]])\<rparr>)\<rparr>)
      | _ \<Rightarrow> analysis)"

text \<open>The two halves of the body after the merge: the reply step with the marking
  (main.py, 420 to 436) and the completion (437 to 506).\<close>

definition reply_and_mark ::
  "externals \<Rightarrow> email_data \<Rightarrow> analysis_result \<Rightarrow> world \<Rightarrow> response option \<times> world" where
  "reply_and_mark env e analysis w =
     (let (result, w2) = generate_response env e analysis w;
          w3 = (case result of
                  None \<Rightarrow> w2
                | Some r \<Rightarrow>
                    w2\<lparr>manager :=
                         add_message (write_reply env) (replied_at env) (thread_id e) ''system''
                           (text_of_reply r) None (manager w2)\<rparr>)
      in (result, snd (mark_as_read (mark_ok env) (message_id e) w3)))"

definition complete_and_check ::
  "externals \<Rightarrow> email_data \<Rightarrow> info \<Rightarrow> analysis_result \<Rightarrow> world \<Rightarrow> world" where
  "complete_and_check env e info analysis w =
     (let w5 = w\<lparr>manager :=
                  complete_conversation (write_complete env) (thread_id e) (manager w)\<rparr>
      in if background_check_name e info analysis (scanned_reply env) = [] then w5
         else (case background_check env of
                 None \<Rightarrow> w5
               | Some summary \<Rightarrow>
                   send_background_check_notification (notify_ok env) e summary w5))"

definition process_job_application :: "externals \<Rightarrow> email_data \<Rightarrow> world \<Rightarrow> world" where
  "process_job_application env e w =
     (case extracted_for_info env of
        Inl _ \<Rightarrow> w
      | Inr analysis \<Rightarrow>
          (let info = provided_info e analysis (scanned_body env);
               shared = shared_education analysis (scanned_body env);
               w1 = w\<lparr>manager :=
                      update_provided_information (write_update env) (thread_id e) info
                        (manager w)\<rparr>;
               (result, w4) = reply_and_mark env e shared w1
           in if (case result of None \<Rightarrow> False | Some r \<Rightarrow> says_complete r)
              then complete_and_check env e info shared w4
              else w4))"

text \<open>\<^verbatim>\<open>process_email\<close>, for a message whose data \<^verbatim>\<open>extract_email_data\<close> has
  extracted: a background-check notification from the HR address is marked as read and
  skipped; every other message is added to the thread as an applicant turn with its
  basic information, classified, and processed or marked as read.\<close>

definition process_email :: "externals \<Rightarrow> email_data \<Rightarrow> world \<Rightarrow> world" where
  "process_email env e w =
     (if (sender_email e = HR_EMAIL \<or> contains HR_EMAIL (sender_email e)) \<and>
         contains ''Background Check Results:'' (subject e)
      then snd (mark_as_read (mark_ok env) (message_id e) w)
      else
        (let w1 = w\<lparr>manager :=
                     add_message (write_received env) (received_at env) (thread_id e)
                       ''applicant'' (body e) (Some (basic_info e (scanned_body env)))
                       (manager w)\<rparr>
         in if classify_email e then process_job_application env e w1
            else snd (mark_as_read (mark_ok env) (message_id e) w1)))"

section \<open>The truth value of a field\<close>

text \<open>Python truthiness of a field value: an empty string, \<^verbatim>\<open>False\<close> and an empty list
  are false.\<close>

definition nonempty_value :: "field_value \<Rightarrow> bool" where
  "nonempty_value v =
     (case v of Str s \<Rightarrow> s \<noteq> [] | Flag b \<Rightarrow> b | Entries es \<Rightarrow> es \<noteq> [] | Strs ss \<Rightarrow> ss \<noteq> [])"

section \<open>Example data\<close>

text \<open>A thread with one applicant turn that disclosed a name, a phone number and a
  resume.\<close>

definition alice_info :: info where
  "alice_info =
     [(''Full Name'', Str ''Alice''), (''Phone Number'', Str ''555 0100''),
      (''Resume/CV'', Flag True)]"

definition alice_manager :: conversation_manager where
  "alice_manager =
     add_message Written ''2025-01-01T09:00:00'' ''t1'' ''applicant'' ''Hello'' (Some alice_info)
       empty_manager"

text \<open>A second mail of Alice in the same thread, with nine spaces after "phone:". The
  phone pattern matches "phone:", its optional white space takes two of the spaces and
  its group the seven others (\<open>spaces_after_phone\<close>).\<close>

definition alice_mail :: email_data where
  "alice_mail =
     \<lparr>sender_name = ''Alice'', sender_email = ''alice@example.com'',
      subject = ''Re: Application'', body = ''My phone:         '', attachments = [],
      thread_id = ''t1'', message_id = ''m3''\<rparr>"

definition spaces_after_phone :: body_scan where
  "spaces_after_phone =
     \<lparr>phone_match = Some ''       '', education_match = None, images_exist = False\<rparr>"

text \<open>A message from the HR address that looks like an application in every other
  respect, and an application from somebody else.\<close>

definition hr_mail :: email_data where
  "hr_mail =
     \<lparr>sender_name = ''Cindy Sim'', sender_email = ''cindysim@arxmedia.co'',
      subject = ''Job application'', body = ''Please find my resume attached.'',
      attachments = [\<lparr>filename = ''resume.pdf'', content_type = ''application/pdf'',
                      attachment_id = ''a1''\<rparr>],
      thread_id = ''t9'', message_id = ''m9''\<rparr>"

definition jane_mail :: email_data where
  "jane_mail =
     \<lparr>sender_name = ''Jane Doe'', sender_email = ''jane@example.com'',
      subject = ''Application for Engineer'', body = ''Please find my resume attached.'',
      attachments = [\<lparr>filename = ''resume.pdf'', content_type = ''application/pdf'',
                      attachment_id = ''a1''\<rparr>],
      thread_id = ''t2'', message_id = ''m2''\<rparr>"

definition no_scan :: reply_scan where
  "no_scan = \<lparr>bold_labels = [], signoff_names = []\<rparr>"

definition nothing_found :: body_scan where
  "nothing_found = \<lparr>phone_match = None, education_match = None, images_exist = False\<rparr>"

text \<open>Field maps: five of the six required fields; all six; all six with an education
  entry that says that the resume gives no education.\<close>

definition five_fields :: info where
  "five_fields =
     [(''Full Name'', Str ''Jane Doe''), (''Email Address'', Str ''jane@example.com''),
      (''Phone Number'', Str ''+1 555 123 4567''), (''Resume/CV'', Flag True),
      (''Work Experience'', Entries [[(''job_title'', ''Engineer'')]])]"


definition negative_education :: "entry list" where
  "negative_education = [[(''description'', ''Not specified in resume'')]]"

definition negative_info :: info where
  "negative_info = five_fields @ [(''Education'', Entries negative_education)]"

definition negative_analysis :: analysis_result where
  "negative_analysis =
     \<lparr>extracted_information =
        Some \<lparr>personal_information =
                Some [(''name'', ''Jane Doe''), (''email'', ''jane@example.com''),
                      (''phone'', ''+1 555 123 4567'')],
              education = Some negative_education,
              work_experience = Some [[(''job_title'', ''Engineer'')]], skills = None\<rparr>,
      missing_information = None, application_complete = None, response_text = None\<rparr>"

text \<open>Extracted information whose values are all empty, and one whose name is three
  spaces.\<close>

definition blank_analysis :: analysis_result where
  "blank_analysis =
     \<lparr>extracted_information =
        Some \<lparr>personal_information = Some [(''name'', ''''), (''email'', ''''), (''phone'', '''')],
              education = Some [], work_experience = Some [], skills = Some []\<rparr>,
      missing_information = None, application_complete = None, response_text = None\<rparr>"

definition spaces_analysis :: analysis_result where
  "spaces_analysis =
     \<lparr>extracted_information =
        Some \<lparr>personal_information = Some [(''name'', ''   '')],
              education = None, work_experience = None, skills = None\<rparr>,
      missing_information = None, application_complete = None, response_text = None\<rparr>"


definition phone_item :: requirement where
  "phone_item = \<lparr>name = ''Phone Number'', description = ''Valid phone number''\<rparr>"

definition email_item :: requirement where
  "email_item =
     \<lparr>name = ''Email Address'', description = ''Valid email address for communication''\<rparr>"

text \<open>The mail of Jane with another body, which mentions a degree; and an analysis whose
  list of missing items holds the email address only.\<close>

definition degree_mail :: email_data where
  "degree_mail = jane_mail\<lparr>body := ''I hold a degree in physics.''\<rparr>"

definition email_asked :: analysis_result where
  "email_asked =
     empty_result\<lparr>missing_information := Some [email_item],
       application_complete := Some False\<rparr>"

text \<open>A run in which the reply is written but cannot be sent, on a mailbox that holds
  the one unread message.\<close>

definition send_fails :: externals where
  "send_fails =
     \<lparr>tool_response = empty_result, plain_extraction = None,
      missing_reply = Reply_object (Some [phone_item]),
      scanned_body = nothing_found, scanned_reply = no_scan,
      reply_text = Some ''Please send your phone number.'', send_ok = False, mark_ok = True,
      received_at = ''2025-01-02T09:00:00'', replied_at = ''2025-01-02T09:00:05'',
      write_received = Written, write_update = Written, write_reply = Written,
      write_complete = Written, background_check = None, notify_ok = True\<rparr>"

text \<open>A run in which the extracted information of the tool response was not valid JSON
  and was kept as plain text that names the education section.\<close>

definition plain_text_run :: externals where
  "plain_text_run =
     send_fails\<lparr>plain_extraction := Some ''education: BSc Physics, skills: none'',
       send_ok := True\<rparr>"

definition inbox :: world where
  "inbox = \<lparr>manager = empty_manager, sent = [], unread = [''m2'']\<rparr>"

text \<open>
  The application of Jane through the whole pipeline: the resume analysis extracts her
  name, email address, phone number and work experience, and an education entry that
  says that the resume gives none; the reply about missing information is not JSON and
  names nothing. \<open>undecided_analysis\<close> is what \<^verbatim>\<open>analyze_resume\<close> returns then, and
  \<open>jane_ledger_info\<close> the cumulative map of the thread when the verdict is computed.
\<close>

definition text_reply :: externals where
  "text_reply =
     \<lparr>tool_response = negative_analysis, plain_extraction = None,
      missing_reply = Reply_text ''I can not answer in JSON.'' [],
      scanned_body = nothing_found, scanned_reply = no_scan,
      reply_text = Some ''We have received your complete application.'', send_ok = True,
      mark_ok = True,
      received_at = ''2025-01-02T09:00:00'', replied_at = ''2025-01-02T09:00:05'',
      write_received = Written, write_update = Written, write_reply = Written,
      write_complete = Written, background_check = None, notify_ok = True\<rparr>"

definition undecided_analysis :: analysis_result where
  "undecided_analysis =
     negative_analysis\<lparr>missing_information := Some [], application_complete := Some False\<rparr>"

definition jane_ledger_info :: info where
  "jane_ledger_info =
     [(''Full Name'', Str ''Jane Doe''), (''Email Address'', Str ''jane@example.com''),
      (''Resume/CV'', Flag True), (''Phone Number'', Str ''+1 555 123 4567''),
      (''Education'', Entries negative_education),
      (''Work Experience'', Entries [[(''job_title'', ''Engineer'')]])]"

section \<open>Unfolding rules for evaluation\<close>

lemmas string_defs =
  lower_def lower_char_def latin_capitals_def latin_smalls_def strip_def is_space_def
  split_words_def

lemmas verdict_defs =
  evaluate_completeness_def missing_after_processing_def labelled_missing_def
  required_information_def has_key_def without_def work_experience_provided_def
  attachment_name_def body_name_def education_missing_def education_item_def
  negative_description_def response_says_no_education_def dict_set_def Let_def

lemmas ledger_defs =
  add_message_def update_provided_information_def complete_conversation_def
  save_conversation_def get_provided_information_def get_conversation_history_def
  empty_manager_def dict_update_def

lemmas process_defs =
  process_job_application_def extracted_for_info_def tool_result_def reply_and_mark_def
  complete_and_check_def generate_response_def analyze_resume_def provided_info_def
  shared_education_def default_name_def send_email_response_def mark_as_read_def
  assign_in_memory_def empty_result_def from_extracted_def from_personal_def text_of_def
  append_education_def

section \<open>Dictionary merges\<close>

lemma fold_update_present:
  "distinct (map fst d) \<Longrightarrow> set xs \<subseteq> set d \<Longrightarrow>
   fold (\<lambda>(k, v). AList.update k v) xs d = d"
  by (induction xs) (auto simp: update_triv)

lemma dict_update_same: "wf_dict M \<Longrightarrow> dict_update M M = M"
  by (simp add: wf_dict_def dict_update_def fold_update_present)

lemma has_key_update: "has_key k d \<Longrightarrow> has_key k (AList.update k' v d)"
  by (auto simp: has_key_def update_keys)

lemma has_key_dict_update: "has_key k d \<Longrightarrow> has_key k (dict_update d p)"
  unfolding dict_update_def
  by (induction p arbitrary: d) (auto simp: has_key_update)

lemma has_key_dict_update_iff:
  "has_key k (dict_update d p) = (has_key k d \<or> has_key k p)"
  unfolding dict_update_def
proof (induction p arbitrary: d)
  case Nil
  then show ?case by (simp add: has_key_def)
next
  case (Cons x p)
  obtain k' v' where x: "x = (k', v')" by (cases x)
  have "has_key k (AList.update k' v' d) = (k = k' \<or> has_key k d)"
    by (auto simp: has_key_def update_keys)
  with Cons.IH [of "AList.update k' v' d"] x show ?case
    by (auto simp: has_key_def)
qed

lemma map_of_fold_update:
  "distinct (map fst p) \<Longrightarrow>
   map_of (fold (\<lambda>(k, v). AList.update k v) p d) k =
     (case map_of p k of None \<Rightarrow> map_of d k | Some v \<Rightarrow> Some v)"
proof (induction p arbitrary: d)
  case Nil
  then show ?case by simp
next
  case (Cons x p)
  obtain k' v' where x: "x = (k', v')" by (cases x)
  from Cons.prems x have fresh: "k' \<notin> fst ` set p" and dist: "distinct (map fst p)"
    by auto
  from fresh have none: "map_of p k' = None"
    by (simp add: map_of_eq_None_iff)
  show ?case
    using Cons.IH [OF dist, of "AList.update k' v' d"] x none
    by (auto simp: update_conv' split: option.splits)
qed

lemma map_of_dict_update:
  "wf_dict p \<Longrightarrow> map_of (dict_update d p) k =
     (case map_of p k of None \<Rightarrow> map_of d k | Some v \<Rightarrow> Some v)"
  by (simp add: dict_update_def wf_dict_def map_of_fold_update)

lemma has_key_dict_set [simp]: "has_key k (dict_set k' v d) = (k = k' \<or> has_key k d)"
  by (auto simp: has_key_def dict_set_def update_keys)

lemma has_key_Nil [simp]: "\<not> has_key k []"
  by (simp add: has_key_def)

section \<open>The ledger\<close>

lemma save_conversation_memory [simp]:
  "provided_information (save_conversation w t cm) = provided_information cm"
  "active_threads (save_conversation w t cm) = active_threads cm"
  by (auto simp: save_conversation_def split: option.splits write_outcome.splits)

lemma get_provided_information_save [simp]:
  "get_provided_information (save_conversation w t cm) t' = get_provided_information cm t'"
  by (simp add: get_provided_information_def)

lemma save_conversation_cache_written:
  "active_threads cm t = Some ms \<Longrightarrow>
   conversation_cache (save_conversation Written t cm) t =
     Some (Saved ms (get_provided_information cm t))"
  by (simp add: save_conversation_def)

lemma get_info_update_provided_information:
  "get_provided_information (update_provided_information w t p cm) t' =
     (if t' = t then dict_update (get_provided_information cm t) p
      else get_provided_information cm t')"
  by (simp add: update_provided_information_def get_provided_information_def Let_def)

lemma get_info_add_message:
  "get_provided_information (add_message w now t rl body_text p cm) t' =
     (if t' = t then
        (case p of
           None \<Rightarrow> get_provided_information cm t
         | Some d \<Rightarrow> if d \<noteq> [] \<and> rl = ''applicant''
                     then dict_update (get_provided_information cm t) d
                     else get_provided_information cm t)
      else get_provided_information cm t')"
  by (simp add: add_message_def get_provided_information_def Let_def split: option.splits)

lemma get_info_complete_conversation:
  "get_provided_information (complete_conversation w t cm) t' = get_provided_information cm t'"
  by (simp add: complete_conversation_def get_provided_information_def Let_def
           split: option.splits)

lemma has_key_run_call:
  "has_key k (get_provided_information cm t) \<Longrightarrow>
   has_key k (get_provided_information (run_call c cm) t)"
  by (cases c)
     (auto simp: get_info_add_message get_info_update_provided_information
                 get_info_complete_conversation has_key_dict_update split: option.splits)

lemma has_key_run_calls:
  "has_key k (get_provided_information cm t) \<Longrightarrow>
   has_key k (get_provided_information (run_calls cs cm) t)"
  unfolding run_calls_def
  by (induction cs arbitrary: cm) (auto simp: has_key_run_call)

lemma alice_manager_info: "get_provided_information alice_manager ''t1'' = alice_info"
  unfolding alice_manager_def get_info_add_message
  by (simp add: alice_info_def empty_manager_def get_provided_information_def dict_update_def)

lemma alice_has_name: "has_key ''Full Name'' (get_provided_information alice_manager ''t1'')"
  by (simp add: alice_manager_info) (simp add: alice_info_def has_key_def)

subsection \<open>Merging a map into itself\<close>

text \<open>
  Claim C3. Merging a field map into a thread whose cumulative map already equals it
  changes nothing: \<^verbatim>\<open>update_provided_information\<close> with \<open>M\<close>, and an applicant turn
  that discloses \<open>M\<close>, leave the cumulative map of the thread (and of every other thread)
  as it was. \<open>wf_dict M\<close> says that \<open>M\<close> is a dictionary (no key twice).
\<close>

theorem merge_same_map_identity:
  assumes "wf_dict M" and "get_provided_information cm t = M"
  shows "get_provided_information (update_provided_information w t M cm) t' =
           get_provided_information cm t' \<and>
         get_provided_information (add_message w now t ''applicant'' body_text (Some M) cm) t' =
           get_provided_information cm t'"
  using assms
  by (auto simp: get_info_update_provided_information get_info_add_message dict_update_same)

theorem merge_same_map_identity_witness:
  "wf_dict alice_info \<and> get_provided_information alice_manager ''t1'' = alice_info \<and>
   get_provided_information
     (update_provided_information Written ''t1'' alice_info alice_manager) ''t1'' = alice_info"
proof -
  have wf: "wf_dict alice_info" by (simp add: wf_dict_def alice_info_def)
  from merge_same_map_identity [OF wf alice_manager_info, of Written "''t1''"]
  show ?thesis using wf alice_manager_info by simp
qed

subsection \<open>Fields are never removed, but the last value wins\<close>

text \<open>
  Claim C2, as the code has it. A field that is present in the cumulative map of a
  thread is present after every sequence of ledger calls (applicant or system turns,
  merges without a turn, completion): no call removes a key. A merge, by
  \<^verbatim>\<open>update_provided_information\<close> or by an applicant turn, is \<^verbatim>\<open>dict.update\<close>:
  afterwards the cumulative map holds the keys it held before and the keys of the merged
  map \<open>p\<close>; every key that \<open>p\<close> carries, new or not, has the value of \<open>p\<close>, whatever
  that value is, and every other key keeps its value. There is no preference for
  non-empty values.
\<close>

theorem provided_field_never_removed:
  "(has_key k (get_provided_information cm t) \<longrightarrow>
      has_key k (get_provided_information (run_calls cs cm) t)) \<and>
   has_key k (get_provided_information (update_provided_information w t p cm) t) =
     (has_key k (get_provided_information cm t) \<or> has_key k p) \<and>
   (wf_dict p \<longrightarrow>
      map_of (get_provided_information (update_provided_information w t p cm) t) k =
        (case map_of p k of
           None \<Rightarrow> map_of (get_provided_information cm t) k
         | Some v \<Rightarrow> Some v)) \<and>
   (wf_dict p \<longrightarrow>
      map_of (get_provided_information
                (add_message w now t ''applicant'' body_text (Some p) cm) t) k =
        (case map_of p k of
           None \<Rightarrow> map_of (get_provided_information cm t) k
         | Some v \<Rightarrow> Some v))"
proof (intro conjI impI)
  assume "has_key k (get_provided_information cm t)"
  then show "has_key k (get_provided_information (run_calls cs cm) t)"
    by (rule has_key_run_calls)
next
  show "has_key k (get_provided_information (update_provided_information w t p cm) t) =
          (has_key k (get_provided_information cm t) \<or> has_key k p)"
    by (simp add: get_info_update_provided_information has_key_dict_update_iff)
next
  assume "wf_dict p"
  then show "map_of (get_provided_information (update_provided_information w t p cm) t) k =
          (case map_of p k of
             None \<Rightarrow> map_of (get_provided_information cm t) k
           | Some v \<Rightarrow> Some v)"
    by (simp add: get_info_update_provided_information map_of_dict_update)
next
  assume wf: "wf_dict p"
  show "map_of (get_provided_information
                  (add_message w now t ''applicant'' body_text (Some p) cm) t) k =
          (case map_of p k of
             None \<Rightarrow> map_of (get_provided_information cm t) k
           | Some v \<Rightarrow> Some v)"
  proof (cases "p = []")
    case True
    then show ?thesis by (simp add: get_info_add_message)
  next
    case False
    with wf show ?thesis by (simp add: get_info_add_message map_of_dict_update)
  qed
qed

theorem provided_field_never_removed_witness:
  "has_key ''Full Name'' (get_provided_information alice_manager ''t1'') \<and>
   wf_dict [(''Email Address'', Str ''alice@example.com'')] \<and>
   has_key ''Full Name''
     (get_provided_information
        (run_calls
           [Update_provided_information Written ''t1''
              [(''Email Address'', Str ''alice@example.com'')],
            Add_message Open_failed ''2025-01-01T10:00:00'' ''t1'' ''system'' ''Thanks'' None,
            Complete_conversation Written ''t1'']
           alice_manager) ''t1'') \<and>
   has_key ''Email Address''
     (get_provided_information
        (update_provided_information Written ''t1''
           [(''Email Address'', Str ''alice@example.com'')] alice_manager) ''t1'') \<and>
   map_of (get_provided_information
             (update_provided_information Written ''t1''
                [(''Email Address'', Str ''alice@example.com'')] alice_manager) ''t1'')
     ''Email Address'' = Some (Str ''alice@example.com'')"
proof -
  have wf: "wf_dict [(''Email Address'', Str ''alice@example.com'')]"
    by (simp add: wf_dict_def)
  have new: "has_key ''Email Address'' [(''Email Address'', Str ''alice@example.com'')]"
    by (simp add: has_key_def)
  from provided_field_never_removed
         [of "''Full Name''" alice_manager "''t1''" _ Written
             "[(''Email Address'', Str ''alice@example.com'')]"]
       provided_field_never_removed
         [of "''Email Address''" alice_manager "''t1''" _ Written
             "[(''Email Address'', Str ''alice@example.com'')]"]
  show ?thesis using alice_has_name wf new by simp
qed

lemma alice_second_mail_info:
  "basic_info alice_mail spaces_after_phone =
     [(''Full Name'', Str ''Alice''), (''Email Address'', Str ''alice@example.com''),
      (''Phone Number'', Str '''')]"
  by (simp add: basic_info_def alice_mail_def spaces_after_phone_def dict_set_def strip_def
        is_space_def Let_def)

text \<open>
  The claim as the specification words it (a present, non-empty value is only ever
  overwritten with another non-empty value) fails: the thread of Alice holds her phone
  number; her second mail has only white space after "phone:", its basic information
  carries the empty string as phone number, and the applicant turn that merges it
  replaces the number with the empty string.
\<close>

theorem nonempty_value_overwritten_by_empty:
  "map_of (get_provided_information alice_manager ''t1'') ''Phone Number'' =
     Some (Str ''555 0100'') \<and>
   nonempty_value (Str ''555 0100'') \<and>
   map_of (get_provided_information
             (add_message Written ''2025-01-03T09:00:00'' ''t1'' ''applicant'' (body alice_mail)
                (Some (basic_info alice_mail spaces_after_phone)) alice_manager) ''t1'')
     ''Phone Number'' = Some (Str '''') \<and>
   \<not> nonempty_value (Str '''')"
  unfolding alice_second_mail_info get_info_add_message alice_manager_info
  by (simp add: alice_info_def dict_update_def nonempty_value_def)

subsection \<open>Appending a turn and the write of the conversation file\<close>

lemma add_message_history:
  "get_conversation_history (add_message w now t rl body_text p cm) t =
     get_conversation_history cm t @
       [\<lparr>role = rl, content = body_text, timestamp = now,
         msg_provided_information =
           (case p of
              None \<Rightarrow> None
            | Some d \<Rightarrow> if d \<noteq> [] \<and> rl = ''applicant'' then Some d else None)\<rparr>]"
  by (simp add: add_message_def Let_def get_conversation_history_def)

lemma add_message_other_thread:
  "t' \<noteq> t \<Longrightarrow>
   get_conversation_history (add_message w now t rl body_text p cm) t' =
     get_conversation_history cm t' \<and>
   get_provided_information (add_message w now t rl body_text p cm) t' =
     get_provided_information cm t'"
  by (simp add: add_message_def Let_def get_conversation_history_def
        get_provided_information_def)

lemma add_message_written:
  "conversation_cache (add_message Written now t rl body_text p cm) t =
     Some (Saved (get_conversation_history (add_message Written now t rl body_text p cm) t)
                 (get_provided_information (add_message Written now t rl body_text p cm) t))"
proof -
  show ?thesis
    unfolding add_message_history
    by (simp add: add_message_def Let_def save_conversation_cache_written
          get_conversation_history_def)
qed

lemma add_message_not_written:
  "conversation_cache (add_message Open_failed now t rl body_text p cm) = conversation_cache cm"
  "conversation_cache (add_message Dump_failed now t rl body_text p cm) t = Some Truncated"
  by (simp_all add: add_message_def Let_def save_conversation_def)

text \<open>
  Claim C6, as the code has it. \<^verbatim>\<open>add_message\<close> appends the turn to the history of
  the thread and merges the disclosed fields of an applicant turn into its cumulative
  map, in memory and before it writes, and keeps both whatever becomes of the write:
  the history and the map after the call do not depend on the outcome of the write,
  and the other threads are as before.
  When the write succeeds, the file of the thread holds exactly the turns and the
  cumulative map that are in memory. When the file cannot be opened the files are as
  before, and when the dump fails the file of the thread is left truncated; in both
  cases nothing is rolled back in memory.
\<close>

theorem add_message_kept_whatever_write:
  "get_conversation_history (add_message w now t rl body_text p cm) t =
     get_conversation_history cm t @
       [\<lparr>role = rl, content = body_text, timestamp = now,
         msg_provided_information =
           (case p of
              None \<Rightarrow> None
            | Some d \<Rightarrow> if d \<noteq> [] \<and> rl = ''applicant'' then Some d else None)\<rparr>] \<and>
   get_provided_information (add_message w now t rl body_text p cm) t =
     (case p of
        None \<Rightarrow> get_provided_information cm t
      | Some d \<Rightarrow> if d \<noteq> [] \<and> rl = ''applicant''
                  then dict_update (get_provided_information cm t) d
                  else get_provided_information cm t) \<and>
   (t' \<noteq> t \<longrightarrow>
      get_conversation_history (add_message w now t rl body_text p cm) t' =
        get_conversation_history cm t' \<and>
      get_provided_information (add_message w now t rl body_text p cm) t' =
        get_provided_information cm t') \<and>
   conversation_cache (add_message Written now t rl body_text p cm) t =
     Some (Saved (get_conversation_history (add_message Written now t rl body_text p cm) t)
                 (get_provided_information (add_message Written now t rl body_text p cm) t)) \<and>
   conversation_cache (add_message Open_failed now t rl body_text p cm) = conversation_cache cm \<and>
   conversation_cache (add_message Dump_failed now t rl body_text p cm) t = Some Truncated"
proof (intro conjI)
  show "t' \<noteq> t \<longrightarrow>
      get_conversation_history (add_message w now t rl body_text p cm) t' =
        get_conversation_history cm t' \<and>
      get_provided_information (add_message w now t rl body_text p cm) t' =
        get_provided_information cm t'"
    using add_message_other_thread by blast
  show "get_provided_information (add_message w now t rl body_text p cm) t =
     (case p of
        None \<Rightarrow> get_provided_information cm t
      | Some d \<Rightarrow> if d \<noteq> [] \<and> rl = ''applicant''
                  then dict_update (get_provided_information cm t) d
                  else get_provided_information cm t)"
    by (simp add: get_info_add_message)
qed (rule add_message_history add_message_written add_message_not_written)+

theorem add_message_kept_whatever_write_witness:
  "map content (get_conversation_history
     (add_message Dump_failed ''2025-01-03T09:00:00'' ''t1'' ''system'' ''Thanks'' None
        alice_manager) ''t1'') = [''Hello'', ''Thanks'']"
proof -
  have h: "map content (get_conversation_history alice_manager ''t1'') = [''Hello'']"
    by (simp add: alice_manager_def add_message_history)
       (simp add: get_conversation_history_def empty_manager_def)
  from add_message_kept_whatever_write
    [of Dump_failed "''2025-01-03T09:00:00''" "''t1''" "''system''" "''Thanks''" None
        alice_manager]
  show ?thesis using h by simp
qed

text \<open>
  The claim as the specification words it (a failed write leaves the thread state in
  memory unchanged) fails: when the file cannot be opened, the turn is in the history
  and its fields are in the cumulative map all the same, and no file exists.
\<close>

theorem failed_write_keeps_memory_change:
  "get_conversation_history
     (add_message Open_failed ''2025-01-01T09:00:00'' ''t1'' ''applicant'' ''Hello''
        (Some alice_info) empty_manager) ''t1'' \<noteq>
   get_conversation_history empty_manager ''t1'' \<and>
   get_provided_information
     (add_message Open_failed ''2025-01-01T09:00:00'' ''t1'' ''applicant'' ''Hello''
        (Some alice_info) empty_manager) ''t1'' = alice_info \<and>
   get_provided_information empty_manager ''t1'' = [] \<and>
   conversation_cache
     (add_message Open_failed ''2025-01-01T09:00:00'' ''t1'' ''applicant'' ''Hello''
        (Some alice_info) empty_manager) ''t1'' = None"
  by (simp add: add_message_def Let_def save_conversation_def get_conversation_history_def
        get_provided_information_def empty_manager_def alice_info_def dict_update_def)

subsection \<open>Completing a thread\<close>

lemma complete_conversation_threads:
  "active_threads (complete_conversation w t cm) = (active_threads cm)(t := None)"
  by (auto simp: complete_conversation_def Let_def split: option.splits)

lemma complete_conversation_cache:
  "conversation_cache (complete_conversation w t cm) =
     conversation_cache (save_conversation w t cm)"
  by (simp add: complete_conversation_def Let_def save_conversation_def split: option.splits)

text \<open>
  Claim C8, as the code has it. After \<^verbatim>\<open>complete_conversation\<close> the thread is not
  active and \<^verbatim>\<open>get_conversation_history\<close> returns the empty list for it; the
  cumulative field map is still returned by \<^verbatim>\<open>get_provided_information\<close>. The turns
  survive only in the conversation file: for a thread that was active, a successful
  last write leaves the turns and the cumulative map there; for a thread that was not
  active nothing is written.
\<close>

theorem completed_thread_history_is_empty:
  "active_threads (complete_conversation w t cm) t = None \<and>
   get_conversation_history (complete_conversation w t cm) t = [] \<and>
   get_provided_information (complete_conversation w t cm) t = get_provided_information cm t \<and>
   (case active_threads cm t of
      None \<Rightarrow> conversation_cache (complete_conversation w t cm) = conversation_cache cm
    | Some ms \<Rightarrow>
        conversation_cache (complete_conversation Written t cm) t =
          Some (Saved ms (get_provided_information cm t)))"
  by (simp add: complete_conversation_threads get_conversation_history_def
        get_info_complete_conversation complete_conversation_cache
        save_conversation_cache_written split: option.splits)
     (simp add: save_conversation_def)

theorem completed_thread_history_is_empty_witness:
  "get_conversation_history (complete_conversation Written ''t1'' alice_manager) ''t1'' = [] \<and>
   get_provided_information (complete_conversation Written ''t1'' alice_manager) ''t1'' =
     alice_info"
  using completed_thread_history_is_empty [of Written "''t1''" alice_manager]
  by (simp add: alice_manager_info)

text \<open>
  The claim as the specification words it (a later get still returns the turns of the
  completed thread) fails: the thread of Alice has a turn before completion and an empty
  history after it.
\<close>

theorem completed_thread_history_lost:
  "get_conversation_history alice_manager ''t1'' \<noteq> [] \<and>
   get_conversation_history (complete_conversation Written ''t1'' alice_manager) ''t1'' = []"
  by (simp add: alice_manager_def add_message_def Let_def save_conversation_def
        get_conversation_history_def empty_manager_def complete_conversation_def)

section \<open>Classification\<close>

lemma sent_mark_as_read [simp]: "sent (snd (mark_as_read ok mid w)) = sent w"
  by (simp add: mark_as_read_def)

lemma unread_mark_as_read [simp]:
  "unread (snd (mark_as_read ok mid w)) = (if ok then removeAll mid (unread w) else unread w)"
  by (simp add: mark_as_read_def)

lemma hr_mail_from_hr: "contains HR_EMAIL (sender_email hr_mail)"
  by (simp add: HR_EMAIL_def hr_mail_def)

lemma other_sender_is_application:
  "classify_email (hr_mail\<lparr>sender_email := ''jane@example.com''\<rparr>)"
  by (simp add: classify_email_def hr_mail_def HR_EMAIL_def Let_def any_in_def
        subject_keywords_def string_defs)

text \<open>
  Claim C10. An email whose sender address contains the HR address is never classified
  as a job application, whatever its subject, body and attachments are; processing it
  sends no reply.
\<close>

theorem hr_sender_never_application:
  assumes "contains HR_EMAIL (sender_email e)"
  shows "\<not> classify_email e \<and> sent (process_email env e w) = sent w"
  using assms by (simp add: classify_email_def process_email_def Let_def)

theorem hr_sender_never_application_witness:
  "contains HR_EMAIL (sender_email hr_mail) \<and> \<not> classify_email hr_mail"
  using hr_sender_never_application [OF hr_mail_from_hr] hr_mail_from_hr by simp

section \<open>The information an email provides\<close>

lemma has_key_append_education [simp]:
  "has_key k (append_education g d) = (k = ''Education'' \<or> has_key k d)"
  by (simp add: append_education_def Let_def)

lemma has_key_from_personal:
  "has_key k (from_personal p d) =
     (has_key k d \<or> (k = ''Full Name'' \<and> text_of ''name'' p \<noteq> None) \<or>
      (k = ''Email Address'' \<and> text_of ''email'' p \<noteq> None) \<or>
      (k = ''Phone Number'' \<and> text_of ''phone'' p \<noteq> None))"
  by (auto simp: from_personal_def Let_def split: option.splits)

lemma has_key_from_extracted:
  "has_key k (from_extracted x) =
     ((case personal_information x of
         None \<Rightarrow> False
       | Some p \<Rightarrow>
           (k = ''Full Name'' \<and> text_of ''name'' p \<noteq> None) \<or>
           (k = ''Email Address'' \<and> text_of ''email'' p \<noteq> None) \<or>
           (k = ''Phone Number'' \<and> text_of ''phone'' p \<noteq> None)) \<or>
      (k = ''Education'' \<and> education x \<noteq> None \<and> education x \<noteq> Some []) \<or>
      (k = ''Work Experience'' \<and> work_experience x \<noteq> None \<and> work_experience x \<noteq> Some []) \<or>
      (k = ''Skills'' \<and> skills x \<noteq> None \<and> skills x \<noteq> Some []))"
  by (auto simp: from_extracted_def Let_def has_key_from_personal split: option.splits)

lemma has_key_provided_info:
  "has_key k (provided_info e a scan) =
     ((case extracted_information a of None \<Rightarrow> False | Some x \<Rightarrow> has_key k (from_extracted x)) \<or>
      (k = ''Resume/CV'' \<and> (attachments e \<noteq> [] \<or> images_exist scan)) \<or>
      (k = ''Phone Number'' \<and> phone_match scan \<noteq> None) \<or>
      (k = ''Education'' \<and> education_match scan \<noteq> None))"
  by (auto simp: provided_info_def Let_def split: option.splits)

lemma has_key_basic_info:
  "has_key k (basic_info e scan) =
     ((k = ''Full Name'' \<and> sender_name e \<noteq> []) \<or>
      (k = ''Email Address'' \<and> sender_email e \<noteq> []) \<or>
      (k = ''Phone Number'' \<and> phone_match scan \<noteq> None) \<or>
      (k = ''Resume/CV'' \<and> list_ex names_a_resume (attachments e)) \<or>
      (k = ''Education'' \<and> education_match scan \<noteq> None))"
  by (auto simp: basic_info_def Let_def split: option.splits)

lemma map_of_dict_set [simp]: "map_of (dict_set k v d) = (map_of d)(k \<mapsto> v)"
  by (simp add: dict_set_def update_conv')

lemma map_of_append_education_other:
  "k \<noteq> ''Education'' \<Longrightarrow> map_of (append_education g d) k = map_of d k"
  by (simp add: append_education_def Let_def)

lemma map_of_from_personal_name:
  "map_of (from_personal p d) ''Full Name'' =
     (case text_of ''name'' p of None \<Rightarrow> map_of d ''Full Name'' | Some n \<Rightarrow> Some (Str n))"
  by (simp add: from_personal_def Let_def split: option.splits)

lemma map_of_from_extracted_name:
  "map_of (from_extracted x) ''Full Name'' =
     (case personal_information x of
        None \<Rightarrow> None
      | Some p \<Rightarrow> (case text_of ''name'' p of None \<Rightarrow> None | Some n \<Rightarrow> Some (Str n)))"
  by (simp add: from_extracted_def Let_def map_of_from_personal_name split: option.splits)

lemma map_of_provided_info_name:
  "map_of (provided_info e a scan) ''Full Name'' =
     (case extracted_information a of
        None \<Rightarrow> None
      | Some x \<Rightarrow> map_of (from_extracted x) ''Full Name'')"
  by (simp add: provided_info_def Let_def map_of_append_education_other split: option.splits)

lemma map_of_basic_info_phone:
  "map_of (basic_info e scan) ''Phone Number'' =
     (case phone_match scan of None \<Rightarrow> None | Some g \<Rightarrow> Some (Str (strip g)))"
  by (simp add: basic_info_def Let_def map_of_append_education_other split: option.splits)

text \<open>
  Claim C9, as the code has it. The information built from the analysis of an
  application tests its values for emptiness only. The full name, the email address
  and the work experience are set exactly when the extracted value is there and not
  empty, the phone number and the education exactly when the extracted value is not
  empty or the pattern for it matches the body; the full name is then the extracted
  name as it is, so a name of white space only is stored. In the basic information of
  an email the sender name and address are set exactly when they are not empty, and
  the phone number is whatever the pattern captured, stripped, also when nothing is
  left of it.
\<close>

theorem field_set_iff_value_not_empty:
  "has_key ''Full Name'' (provided_info e a scan) =
     (\<exists>x p n. extracted_information a = Some x \<and> personal_information x = Some p \<and>
              map_of p ''name'' = Some n \<and> n \<noteq> []) \<and>
   has_key ''Email Address'' (provided_info e a scan) =
     (\<exists>x p n. extracted_information a = Some x \<and> personal_information x = Some p \<and>
              map_of p ''email'' = Some n \<and> n \<noteq> []) \<and>
   has_key ''Phone Number'' (provided_info e a scan) =
     ((\<exists>x p n. extracted_information a = Some x \<and> personal_information x = Some p \<and>
               map_of p ''phone'' = Some n \<and> n \<noteq> []) \<or> phone_match scan \<noteq> None) \<and>
   has_key ''Education'' (provided_info e a scan) =
     ((\<exists>x es. extracted_information a = Some x \<and> education x = Some es \<and> es \<noteq> []) \<or>
      education_match scan \<noteq> None) \<and>
   has_key ''Work Experience'' (provided_info e a scan) =
     (\<exists>x ws. extracted_information a = Some x \<and> work_experience x = Some ws \<and> ws \<noteq> []) \<and>
   map_of (provided_info e a scan) ''Full Name'' =
     (case extracted_name a of
        None \<Rightarrow> None
      | Some n \<Rightarrow> if n = [] then None else Some (Str n)) \<and>
   has_key ''Full Name'' (basic_info e scan) = (sender_name e \<noteq> []) \<and>
   has_key ''Email Address'' (basic_info e scan) = (sender_email e \<noteq> []) \<and>
   map_of (basic_info e scan) ''Phone Number'' =
     (case phone_match scan of None \<Rightarrow> None | Some g \<Rightarrow> Some (Str (strip g)))"
proof (intro conjI)
  show "map_of (provided_info e a scan) ''Full Name'' =
     (case extracted_name a of
        None \<Rightarrow> None
      | Some n \<Rightarrow> if n = [] then None else Some (Str n))"
    by (simp add: map_of_provided_info_name map_of_from_extracted_name extracted_name_def
          text_of_def split: option.splits)
  show "map_of (basic_info e scan) ''Phone Number'' =
     (case phone_match scan of None \<Rightarrow> None | Some g \<Rightarrow> Some (Str (strip g)))"
    by (rule map_of_basic_info_phone)
qed (auto simp: has_key_provided_info has_key_from_extracted has_key_basic_info text_of_def
          split: option.splits if_splits)

theorem field_set_iff_value_not_empty_witness:
  "map (\<lambda>k. has_key k (provided_info jane_mail blank_analysis nothing_found))
     [''Full Name'', ''Email Address'', ''Phone Number'', ''Education'', ''Work Experience''] =
   [False, False, False, False, False] \<and>
   map_of (provided_info jane_mail spaces_analysis nothing_found) ''Full Name'' =
     Some (Str ''   '')"
proof -
  have n: "extracted_name spaces_analysis = Some ''   ''"
    by (simp add: extracted_name_def spaces_analysis_def)
  show ?thesis
    using field_set_iff_value_not_empty [of jane_mail blank_analysis nothing_found]
          field_set_iff_value_not_empty [of jane_mail spaces_analysis nothing_found] n
    by (simp add: nothing_found_def blank_analysis_def)
qed

text \<open>
  The claim as the specification words it (a value of white space only never sets the
  field) fails: an extracted name of three spaces becomes the full name, and the
  second mail of Alice, where the phone pattern captures white space only, sets the
  phone number to the empty string.
\<close>

theorem whitespace_value_sets_field:
  "strip ''   '' = [] \<and>
   map_of (provided_info jane_mail spaces_analysis nothing_found) ''Full Name'' =
     Some (Str ''   '') \<and>
   map_of (basic_info alice_mail spaces_after_phone) ''Phone Number'' = Some (Str '''')"
  by (simp add: provided_info_def basic_info_def from_extracted_def from_personal_def text_of_def
        dict_set_def spaces_analysis_def nothing_found_def spaces_after_phone_def jane_mail_def
        alice_mail_def string_defs names_a_resume_def Let_def)

section \<open>The completeness verdict\<close>



lemma education_missing_cong:
  "has_key ''Education'' F = has_key ''Education'' F' \<Longrightarrow>
   education_missing F e a = education_missing F' e a"
  by (simp add: education_missing_def)

lemma missing_after_processing_cong:
  assumes "\<And>n. n \<in> set field_names \<Longrightarrow> has_key n F = has_key n F'"
  shows "fst (missing_after_processing F e a scan) = fst (missing_after_processing F' e a scan)"
proof -
  have k: "has_key ''Full Name'' F = has_key ''Full Name'' F'"
          "has_key ''Email Address'' F = has_key ''Email Address'' F'"
          "has_key ''Phone Number'' F = has_key ''Phone Number'' F'"
          "has_key ''Resume/CV'' F = has_key ''Resume/CV'' F'"
          "has_key ''Work Experience'' F = has_key ''Work Experience'' F'"
          "has_key ''Education'' F = has_key ''Education'' F'"
    using assms by (simp_all add: field_names_def)
  have d: "filter (\<lambda>req. \<not> has_key (name req) F) required_information =
           filter (\<lambda>req. \<not> has_key (name req) F') required_information"
    using k by (simp add: required_information_def)
  have e1: "\<And>n. education_missing (dict_set ''Full Name'' (Str n) F) e a =
                 education_missing (dict_set ''Full Name'' (Str n) F') e a"
    using k by (intro education_missing_cong) simp
  have e0: "education_missing F e a = education_missing F' e a"
    using k by (intro education_missing_cong) simp
  show ?thesis
    unfolding missing_after_processing_def Let_def fst_conv d k
    by (simp add: e0 e1 split: option.splits)
qed

text \<open>
  Claim C1, evaluated on the code. The education of this field map is one entry whose
  description says "Not specified in resume". With the key \<^verbatim>\<open>Education\<close> present the
  verdict has no missing field and is complete; with the key absent and the same entry
  in the extracted information of the analysis, the check of the descriptions finds the
  negative phrase and Education is missing. The presence of the key alone decides, and
  the negative description is not looked at.
\<close>

theorem negative_education_counts_as_provided:
  "evaluate_completeness negative_info jane_mail negative_analysis no_scan =
     \<lparr>missing = [], complete = True\<rparr> \<and>
   evaluate_completeness five_fields jane_mail negative_analysis no_scan =
     \<lparr>missing = [education_item], complete = False\<rparr>"
  by (simp add: verdict_defs string_defs negative_info_def five_fields_def jane_mail_def
        negative_analysis_def no_scan_def negative_education_def)

subsection \<open>The same application through the whole pipeline\<close>

text \<open>
  The field map of the evaluation above is one that the code builds itself: the
  extracted education entry is copied into the provided information before the verdict
  is computed, the verdict is complete, and the thread is completed.
\<close>

lemma jane_is_application: "classify_email jane_mail"
  by (simp add: classify_email_def jane_mail_def HR_EMAIL_def Let_def any_in_def
        subject_keywords_def string_defs)

lemma jane_basic_info:
  "basic_info jane_mail nothing_found =
     [(''Full Name'', Str ''Jane Doe''), (''Email Address'', Str ''jane@example.com''),
      (''Resume/CV'', Flag True)]"
  by (simp add: basic_info_def jane_mail_def nothing_found_def names_a_resume_def dict_set_def
        Let_def)

lemma jane_analysis:
  "analyze_resume negative_analysis (Reply_text ''I can not answer in JSON.'' []) =
     undecided_analysis"
  by (simp add: analyze_resume_def undecided_analysis_def string_defs)

lemma jane_provided_info:
  "provided_info jane_mail undecided_analysis nothing_found =
     [(''Full Name'', Str ''Jane Doe''), (''Email Address'', Str ''jane@example.com''),
      (''Phone Number'', Str ''+1 555 123 4567''), (''Education'', Entries negative_education),
      (''Work Experience'', Entries [[(''job_title'', ''Engineer'')]]),
      (''Resume/CV'', Flag True)]"
  by (simp add: provided_info_def undecided_analysis_def negative_analysis_def
        from_extracted_def from_personal_def text_of_def dict_set_def jane_mail_def
        nothing_found_def negative_education_def Let_def)

lemma jane_shared: "shared_education undecided_analysis nothing_found = undecided_analysis"
  by (simp add: shared_education_def nothing_found_def undecided_analysis_def
        negative_analysis_def)

lemma jane_merged:
  "dict_update (basic_info jane_mail nothing_found)
     (provided_info jane_mail undecided_analysis nothing_found) = jane_ledger_info"
  unfolding jane_basic_info jane_provided_info
  by (simp add: dict_update_def jane_ledger_info_def)

lemma jane_verdict:
  "evaluate_completeness jane_ledger_info jane_mail undecided_analysis no_scan =
     \<lparr>missing = [], complete = True\<rparr>"
  by (simp add: verdict_defs string_defs jane_ledger_info_def jane_mail_def
        undecided_analysis_def negative_analysis_def no_scan_def negative_education_def)

lemma jane_default_name: "default_name jane_mail undecided_analysis = Some ''Jane''"
  by (simp add: default_name_def jane_mail_def undecided_analysis_def negative_analysis_def
        text_of_def string_defs)

lemma generate_response_result:
  "default_name e a = Some n \<Longrightarrow> reply_text env = Some t \<Longrightarrow>
   fst (generate_response env e a w) =
     Some \<lparr>text_of_reply = strip t,
           says_complete =
             complete (evaluate_completeness
               (get_provided_information (manager w) (thread_id e)) e a (scanned_reply env))\<rparr>"
  by (simp add: generate_response_def Let_def)

lemma fst_reply_and_mark [simp]:
  "fst (reply_and_mark env e a w) = fst (generate_response env e a w)"
  by (simp add: reply_and_mark_def Let_def split: prod.splits)

lemma threads_complete_and_check:
  "active_threads (manager (complete_and_check env e info a w)) (thread_id e) = None"
  by (simp add: complete_and_check_def Let_def send_background_check_notification_def
        complete_conversation_threads split: option.splits)

lemma process_job_application_completes:
  assumes "extracted_for_info env = Inr analysis"
    and "fst (generate_response env e (shared_education analysis (scanned_body env))
      (w\<lparr>manager := update_provided_information (write_update env) (thread_id e)
            (provided_info e analysis (scanned_body env)) (manager w)\<rparr>)) = Some r"
    and "says_complete r"
  shows "active_threads (manager (process_job_application env e w)) (thread_id e) = None"
proof -
  let ?w1 = "w\<lparr>manager := update_provided_information (write_update env) (thread_id e)
                (provided_info e analysis (scanned_body env)) (manager w)\<rparr>"
  obtain r' w4 where rm: "reply_and_mark env e (shared_education analysis (scanned_body env)) ?w1 =
      (r', w4)"
    by (cases "reply_and_mark env e (shared_education analysis (scanned_body env)) ?w1")
  from fst_reply_and_mark [of env e "shared_education analysis (scanned_body env)" ?w1] rm assms(2)
  have r': "r' = Some r" by simp
  show ?thesis
    using assms(3)
    by (simp add: process_job_application_def assms(1) Let_def rm r' threads_complete_and_check)
qed

lemma jane_ledger:
  "get_provided_information
     (update_provided_information Written ''t2''
        (provided_info jane_mail undecided_analysis nothing_found)
        (add_message Written ''2025-01-02T09:00:00'' ''t2'' ''applicant''
           ''Please find my resume attached.'' (Some (basic_info jane_mail nothing_found))
           empty_manager)) ''t2'' = jane_ledger_info"
  unfolding get_info_update_provided_information get_info_add_message
  by (simp add: jane_merged [symmetric])
     (simp add: jane_basic_info dict_update_def get_provided_information_def empty_manager_def)

lemma negative_education_application_completed:
  "active_threads (manager (process_email text_reply jane_mail inbox)) ''t2'' = None"
proof -
  let ?w1 = "inbox\<lparr>manager :=
      add_message Written ''2025-01-02T09:00:00'' ''t2'' ''applicant''
        ''Please find my resume attached.'' (Some (basic_info jane_mail nothing_found))
        (manager inbox)\<rparr>"
  have env: "tool_response text_reply = negative_analysis"
    "missing_reply text_reply = Reply_text ''I can not answer in JSON.'' []"
    "scanned_body text_reply = nothing_found" "scanned_reply text_reply = no_scan"
    "reply_text text_reply = Some ''We have received your complete application.''"
    "write_update text_reply = Written" "write_received text_reply = Written"
    "received_at text_reply = ''2025-01-02T09:00:00''"
    "plain_extraction text_reply = None"
    by (simp_all add: text_reply_def)
  have mail: "thread_id jane_mail = ''t2''" "body jane_mail = ''Please find my resume attached.''"
    "sender_email jane_mail = ''jane@example.com''"
    by (simp_all add: jane_mail_def)
  have not_hr: "\<not> contains HR_EMAIL ''jane@example.com''"
    by (simp add: HR_EMAIL_def)
  have step: "process_email text_reply jane_mail inbox =
              process_job_application text_reply jane_mail ?w1"
    using jane_is_application not_hr
    by (simp add: process_email_def env mail Let_def HR_EMAIL_def)
  have analysis: "extracted_for_info text_reply = Inr undecided_analysis"
    by (simp add: extracted_for_info_def tool_result_def env jane_analysis)
  have info: "get_provided_information
      (manager (?w1\<lparr>manager := update_provided_information Written ''t2''
          (provided_info jane_mail undecided_analysis nothing_found) (manager ?w1)\<rparr>)) ''t2'' =
      jane_ledger_info"
    using jane_ledger by (simp add: inbox_def)
  have result: "fst (generate_response text_reply jane_mail undecided_analysis
      (?w1\<lparr>manager := update_provided_information Written ''t2''
          (provided_info jane_mail undecided_analysis nothing_found) (manager ?w1)\<rparr>)) =
      Some \<lparr>text_of_reply = strip ''We have received your complete application.'',
            says_complete = True\<rparr>"
    using generate_response_result [OF jane_default_name env(5)] info jane_verdict
    by (simp add: mail env)
  show ?thesis
    unfolding step
    using process_job_application_completes [OF analysis, of jane_mail ?w1] result
    by (simp add: env mail jane_shared)
qed

subsection \<open>The verdict and the required fields\<close>

lemma evaluate_completeness_cong:
  assumes "\<And>n. n \<in> set field_names \<Longrightarrow> has_key n F = has_key n F'"
  shows "evaluate_completeness F e a scan = evaluate_completeness F' e a scan"
  using missing_after_processing_cong [OF assms, of e a scan]
  by (simp add: evaluate_completeness_def Let_def)







lemma generate_response_verdict:
  "map_option says_complete (fst (generate_response env e a w)) =
     (case default_name e a of
        None \<Rightarrow> None
      | Some _ \<Rightarrow>
          (case reply_text env of
             None \<Rightarrow> None
           | Some _ \<Rightarrow>
               Some (complete (evaluate_completeness
                       (get_provided_information (manager w) (thread_id e)) e a
                       (scanned_reply env)))))"
  by (simp add: generate_response_def Let_def split: option.splits)

text \<open>
  Claim C5, as the code has it. The verdict that \<^verbatim>\<open>generate_response\<close> returns is
  the flag of the evaluation on the cumulative map of the thread, and it is the same
  for two calls that are given the same email, the same analysis result (the
  tool response and the reply about missing information) and the same matches of the
  sign-off and label patterns, on field maps that hold the same ones of the six
  required names, when both calls get a reply text: nothing else of the state (the
  history, other threads, the values stored, what was sent or is unread, whether the
  send succeeds) enters it. The field map and the requirements alone do not determine
  the verdict.
\<close>

theorem verdict_same_for_same_inputs:
  assumes "\<And>n. n \<in> set field_names \<Longrightarrow>
             has_key n (get_provided_information (manager w) (thread_id e)) =
             has_key n (get_provided_information (manager w') (thread_id e))"
    and "scanned_reply env = scanned_reply env'"
    and "(reply_text env = None) = (reply_text env' = None)"
  shows "map_option says_complete (fst (generate_response env e a w)) =
         map_option says_complete (fst (generate_response env' e a w')) \<and>
         map_option says_complete (fst (generate_response env e a w)) =
           (case default_name e a of
              None \<Rightarrow> None
            | Some _ \<Rightarrow>
                (case reply_text env of
                   None \<Rightarrow> None
                 | Some _ \<Rightarrow>
                     Some (complete (evaluate_completeness
                             (get_provided_information (manager w) (thread_id e)) e a
                             (scanned_reply env)))))"
proof
  show "map_option says_complete (fst (generate_response env e a w)) =
        map_option says_complete (fst (generate_response env' e a w'))"
    using evaluate_completeness_cong [OF assms(1), of e a "scanned_reply env"] assms(2,3)
    by (auto simp: generate_response_verdict split: option.splits)
  show "map_option says_complete (fst (generate_response env e a w)) =
           (case default_name e a of
              None \<Rightarrow> None
            | Some _ \<Rightarrow>
                (case reply_text env of
                   None \<Rightarrow> None
                 | Some _ \<Rightarrow>
                     Some (complete (evaluate_completeness
                             (get_provided_information (manager w) (thread_id e)) e a
                             (scanned_reply env)))))"
    by (rule generate_response_verdict)
qed

theorem verdict_same_for_same_inputs_witness:
  "map_option says_complete (fst (generate_response send_fails jane_mail email_asked inbox)) =
   map_option says_complete
     (fst (generate_response text_reply jane_mail email_asked
        (inbox\<lparr>manager :=
                 update_provided_information Written ''t2''
                   [(''Portfolio'', Str ''https://example.com/jane'')] empty_manager,
               sent := [(''jane@example.com'', ''Re: Hello'', ''Hello'')]\<rparr>)))"
proof -
  have keys: "has_key n (get_provided_information (manager inbox) (thread_id jane_mail)) =
      has_key n (get_provided_information
        (manager (inbox\<lparr>manager :=
                 update_provided_information Written ''t2''
                   [(''Portfolio'', Str ''https://example.com/jane'')] empty_manager,
               sent := [(''jane@example.com'', ''Re: Hello'', ''Hello'')]\<rparr>))
        (thread_id jane_mail))"
    if "n \<in> set field_names" for n
    using that
    by (simp add: get_info_update_provided_information inbox_def jane_mail_def)
       (auto simp: get_provided_information_def empty_manager_def dict_update_def has_key_def
          field_names_def)
  have scans: "scanned_reply send_fails = scanned_reply text_reply"
    by (simp add: send_fails_def text_reply_def)
  have replies: "(reply_text send_fails = None) = (reply_text text_reply = None)"
    by (simp add: send_fails_def text_reply_def)
  from verdict_same_for_same_inputs [OF keys scans replies]
  show ?thesis by blast
qed

text \<open>
  The claim as the specification words it (two calls with the same field map and the
  same requirements return the same verdict) fails, and without any difference in the
  replies of the model: the field map holds five of the six required fields, the
  reply about missing information names the email address in both calls, and the
  verdict is incomplete for the mail of Jane and complete for the same mail with a
  body that mentions a degree.
\<close>

theorem same_field_map_different_verdicts:
  "evaluate_completeness five_fields jane_mail
     (analyze_resume empty_result (Reply_object (Some [email_item]))) no_scan =
     \<lparr>missing = [education_item], complete = False\<rparr> \<and>
   evaluate_completeness five_fields degree_mail
     (analyze_resume empty_result (Reply_object (Some [email_item]))) no_scan =
     \<lparr>missing = [], complete = True\<rparr>"
  by (simp add: verdict_defs string_defs five_fields_def jane_mail_def degree_mail_def
        no_scan_def email_item_def analyze_resume_def empty_result_def)

section \<open>Replies and marking as read\<close>

lemma manager_mark_as_read [simp]: "manager (snd (mark_as_read ok mid w)) = manager w"
  by (simp add: mark_as_read_def)

lemma unread_send [simp]: "unread (snd (send_email_response ok e t w)) = unread w"
  by (simp add: send_email_response_def)

lemma sent_send_failed [simp]: "sent (snd (send_email_response False e t w)) = sent w"
  by (simp add: send_email_response_def)

lemma unread_generate_response [simp]:
  "unread (snd (generate_response env e a w)) = unread w"
  by (simp add: generate_response_def Let_def split: option.splits)

lemma sent_generate_response_failed:
  "\<not> send_ok env \<Longrightarrow> sent (snd (generate_response env e a w)) = sent w"
  by (simp add: generate_response_def Let_def split: option.splits)

lemma unread_reply_and_mark:
  "unread (snd (reply_and_mark env e a w)) =
     (if mark_ok env then removeAll (message_id e) (unread w) else unread w)"
proof -
  obtain r w2 where g: "generate_response env e a w = (r, w2)"
    by (cases "generate_response env e a w")
  from unread_generate_response [of env e a w] g have u: "unread w2 = unread w" by simp
  show ?thesis
    by (simp add: reply_and_mark_def g u split: option.splits)
qed

lemma sent_reply_and_mark_failed:
  assumes "\<not> send_ok env"
  shows "sent (snd (reply_and_mark env e a w)) = sent w"
proof -
  obtain r w2 where g: "generate_response env e a w = (r, w2)"
    by (cases "generate_response env e a w")
  from sent_generate_response_failed [OF assms, of e a w] g have u: "sent w2 = sent w" by simp
  show ?thesis
    by (simp add: reply_and_mark_def g u split: option.splits)
qed

lemma unread_complete_and_check [simp]:
  "unread (complete_and_check env e info a w) = unread w"
  by (simp add: complete_and_check_def Let_def send_background_check_notification_def
        split: option.splits)

lemma sent_complete_and_check_none:
  "background_check env = None \<Longrightarrow> sent (complete_and_check env e info a w) = sent w"
  by (simp add: complete_and_check_def Let_def)

lemma extracted_for_info_raises:
  "(extracted_for_info env = Inl TypeError) =
     (\<exists>s. plain_extraction env = Some s \<and> missing_reply env \<noteq> Reply_failed \<and>
          names_a_section s)"
  by (auto simp: extracted_for_info_def split: option.splits)

lemma extracted_for_info_send [simp]:
  "extracted_for_info (env\<lparr>send_ok := b\<rparr>) = extracted_for_info env"
  by (simp add: extracted_for_info_def tool_result_def split: option.splits)

lemma unread_process_job_application:
  "unread (process_job_application env e w) =
     (if extracted_for_info env = Inl TypeError then unread w
      else if mark_ok env then removeAll (message_id e) (unread w) else unread w)"
proof (cases "extracted_for_info env")
  case (Inl err)
  then show ?thesis by (cases err) (simp add: process_job_application_def)
next
  case (Inr analysis)
  let ?w1 = "w\<lparr>manager := update_provided_information (write_update env) (thread_id e)
                (provided_info e analysis (scanned_body env)) (manager w)\<rparr>"
  have u: "unread (snd (reply_and_mark env e
                (shared_education analysis (scanned_body env)) ?w1)) =
           (if mark_ok env then removeAll (message_id e) (unread w) else unread w)"
    by (simp add: unread_reply_and_mark)
  show ?thesis
    using u
    by (simp add: process_job_application_def Inr Let_def split: prod.splits)
       (metis snd_conv)
qed

lemma sent_process_job_application_failed:
  assumes "\<not> send_ok env" and "background_check env = None"
  shows "sent (process_job_application env e w) = sent w"
proof (cases "extracted_for_info env")
  case (Inl err)
  then show ?thesis by (simp add: process_job_application_def)
next
  case (Inr analysis)
  let ?w1 = "w\<lparr>manager := update_provided_information (write_update env) (thread_id e)
                (provided_info e analysis (scanned_body env)) (manager w)\<rparr>"
  have u: "sent (snd (reply_and_mark env e
                (shared_education analysis (scanned_body env)) ?w1)) = sent w"
    using assms(1) by (simp add: sent_reply_and_mark_failed)
  show ?thesis
    using u assms(2)
    by (simp add: process_job_application_def Inr Let_def sent_complete_and_check_none
          split: prod.splits)
       (metis snd_conv)
qed

lemma reply_was_written:
  "map content (get_conversation_history
     (manager (process_job_application send_fails jane_mail inbox)) ''t2'') =
   [''Please send your phone number.'']"
  by (simp add: process_defs ledger_defs verdict_defs string_defs send_fails_def jane_mail_def
        inbox_def nothing_found_def no_scan_def phone_item_def)

text \<open>
  Claim C7, as the code has it. \<^verbatim>\<open>process_job_application\<close> does not look at the
  result of the send. When the function gets as far as the reply step, the message is
  marked as read after it whenever the mark-as-read request itself succeeds, whether
  the reply was sent or not: the unread messages after the call are the same for a
  send that fails and a send that succeeds. The message stays unread when that request
  fails, and when the function raises before it reaches the reply step; on the inputs
  modelled here (extracted information that is a well-formed object, or the plain text
  kept for invalid JSON) it raises exactly when the plain text names one of the four
  sections.
\<close>

theorem marked_read_whether_sent_or_not:
  "unread (process_job_application env e w) =
     (if extracted_for_info env = Inl TypeError then unread w
      else if mark_ok env then removeAll (message_id e) (unread w) else unread w) \<and>
   (extracted_for_info env = Inl TypeError) =
     (\<exists>s. plain_extraction env = Some s \<and> missing_reply env \<noteq> Reply_failed \<and>
          names_a_section s) \<and>
   unread (process_job_application (env\<lparr>send_ok := False\<rparr>) e w) =
     unread (process_job_application (env\<lparr>send_ok := True\<rparr>) e w)"
proof (intro conjI)
  show "unread (process_job_application (env\<lparr>send_ok := False\<rparr>) e w) =
        unread (process_job_application (env\<lparr>send_ok := True\<rparr>) e w)"
    by (simp add: unread_process_job_application)
qed (rule unread_process_job_application extracted_for_info_raises)+

theorem marked_read_whether_sent_or_not_witness:
  "unread (process_job_application send_fails jane_mail inbox) = [] \<and>
   unread (process_job_application plain_text_run jane_mail inbox) = [''m2'']"
proof -
  have a: "extracted_for_info send_fails \<noteq> Inl TypeError"
    by (simp add: extracted_for_info_raises send_fails_def)
  have b: "extracted_for_info plain_text_run = Inl TypeError"
    by (simp add: extracted_for_info_raises plain_text_run_def send_fails_def names_a_section_def)
  show ?thesis
    using marked_read_whether_sent_or_not [of send_fails jane_mail inbox]
          marked_read_whether_sent_or_not [of plain_text_run jane_mail inbox] a b
    by (simp add: send_fails_def inbox_def jane_mail_def)
qed

text \<open>
  The claim as the specification words it (a message whose reply could not be sent is
  not marked as read) fails: the reply to the application of Jane is written, the send
  fails and nothing is sent, and the message is no longer unread.
\<close>

theorem unsent_reply_still_marked_read:
  "\<not> send_ok send_fails \<and> sent (process_job_application send_fails jane_mail inbox) = [] \<and>
   map content (get_conversation_history
     (manager (process_job_application send_fails jane_mail inbox)) ''t2'') =
     [''Please send your phone number.''] \<and>
   ''m2'' \<in> set (unread inbox) \<and>
   ''m2'' \<notin> set (unread (process_job_application send_fails jane_mail inbox))"
proof -
  have f: "\<not> send_ok send_fails" by (simp add: send_fails_def)
  have m: "mark_ok send_fails" by (simp add: send_fails_def)
  have n: "background_check send_fails = None" by (simp add: send_fails_def)
  have a: "extracted_for_info send_fails \<noteq> Inl TypeError"
    by (simp add: extracted_for_info_raises send_fails_def)
  show ?thesis
    using f m a sent_process_job_application_failed [OF f n, of jane_mail inbox]
      reply_was_written
    by (simp add: unread_process_job_application) (simp add: inbox_def jane_mail_def)
qed

end
